theory Spec2Isabelle
  imports Complex_Main
begin

section \<open>Streaming metrics of \<^verbatim>\<open>contrib/metrics/python/ops/metric_ops.py\<close>\<close>

text \<open>
  The module builds, for each metric, a pair of deferred expressions over named local
  variables: a \<^emph>\<open>value tensor\<close> and an \<^emph>\<open>update op\<close>. The embedding follows that
  structure.

  \<^item> A \<open>Tensor\<close> argument is a record of its shape, of whether that shape is known
    when the metric is declared (\<open>get_shape\<close> is what the declaration sees), and of the
    elements it holds in the run under consideration, in row-major order. Floating
    point numbers are real numbers: rounding, infinities and NaN are not modelled.
  \<^item> The local variables live in a store, addressed by their scoped names. A scalar
    variable (\<open>shape=[]\<close>) holds a real, a vector variable a list of reals.
  \<^item> An op is a deferred computation: a function from the store to its result and
    the store it leaves. Running an op evaluates the ops it depends on, and nothing
    else; an op that nothing depends on is never run.
  \<^item> A variable, or \<open>identity\<close> of one, is a reference: the op that consumes it reads
    the store when it runs.
  \<^item> An op built under \<open>control_dependencies\<close> runs after the ops the block names, on
    the store they leave. A tensor computed by an op that was built outside the block has
    no such edge; it is evaluated on the store the run starts from.
  \<^item> Every \<open>raise\<close> of the declaration phase is an \<open>Inl\<close> result.
  \<^item> The optional \<open>metrics_collections\<close> and \<open>updates_collections\<close> arguments only
    register the two returned tensors in named collections; they are left out.
\<close>

subsection \<open>Tensors and static shapes\<close>

datatype error = ValueError | IndexError | NotImplementedError | InvalidArgumentError

record 'a tensor =
  dims :: "nat list"
  static_shape_known :: bool
  data :: "'a list"

type_synonym tensor_shape = "nat list option"

definition get_shape :: "'a tensor \<Rightarrow> tensor_shape" where
  "get_shape t = (if static_shape_known t then Some (dims t) else None)"

definition ndims :: "tensor_shape \<Rightarrow> nat option" where
  "ndims s = map_option length s"

text \<open>\<open>TensorShape.is_compatible_with\<close> on shapes that are fully known or of unknown rank.\<close>

definition is_compatible_with :: "tensor_shape \<Rightarrow> tensor_shape \<Rightarrow> bool" where
  "is_compatible_with s1 s2 =
     (case (s1, s2) of (Some d1, Some d2) \<Rightarrow> d1 = d2 | _ \<Rightarrow> True)"

definition size_t :: "'a tensor \<Rightarrow> nat" where
  "size_t t = length (data t)"

definition map_tensor :: "('a \<Rightarrow> 'b) \<Rightarrow> 'a tensor \<Rightarrow> 'b tensor" where
  "map_tensor f t =
     \<lparr>dims = dims t, static_shape_known = static_shape_known t, data = map f (data t)\<rparr>"

text \<open>
  An element-wise binary op. The declarations check the static shapes of the two
  operands before they combine them, so on known shapes the element lists have the same
  length; what the runtime does with operands of unknown, differing shapes
  (broadcasting, or an error) is not modelled.
\<close>

definition map2_tensor :: "('a \<Rightarrow> 'b \<Rightarrow> 'c) \<Rightarrow> 'a tensor \<Rightarrow> 'b tensor \<Rightarrow> 'c tensor" where
  "map2_tensor f a b =
     \<lparr>dims = dims a,
      static_shape_known = (static_shape_known a \<and> static_shape_known b),
      data = map2 f (data a) (data b)\<rparr>"

definition to_float :: "bool \<Rightarrow> real" where
  "to_float b = (if b then 1 else 0)"

definition reduce_sum :: "real list \<Rightarrow> real" where
  "reduce_sum xs = sum_list xs"

definition logical_not :: "bool tensor \<Rightarrow> bool tensor" where
  "logical_not t = map_tensor Not t"

text \<open>\<open>math_ops.select(condition, t, e)\<close>, element-wise.\<close>

definition select_elems :: "bool list \<Rightarrow> 'a list \<Rightarrow> 'a list \<Rightarrow> 'a list" where
  "select_elems c t e = map (\<lambda>(b, x, y). if b then x else y) (zip c (zip t e))"

definition zeros_like :: "bool tensor \<Rightarrow> bool list" where
  "zeros_like t = replicate (length (data t)) False"

subsection \<open>Local variables and deferred ops\<close>

record store =
  scalars :: "string \<Rightarrow> real"
  vectors :: "string \<Rightarrow> real list"

type_synonym 'a op = "store \<Rightarrow> 'a \<times> store"

record variable =
  var_name :: string
  var_shape :: "nat list"

definition zeros :: "nat list \<Rightarrow> real list" where
  "zeros shape = replicate (prod_list shape) 0"

text \<open>
  \<open>_create_local(name, shape)\<close>: a variable of the current variable scope whose initial
  value is \<open>zeros(shape)\<close>, added to the collection of local variables.
\<close>

definition create_local :: "string \<Rightarrow> string \<Rightarrow> nat list \<Rightarrow> variable" where
  "create_local scope name shape = \<lparr>var_name = scope @ ''/'' @ name, var_shape = shape\<rparr>"

definition initializer :: "variable \<Rightarrow> store \<Rightarrow> store" where
  "initializer v st =
     (if var_shape v = []
      then st\<lparr>scalars := (scalars st)(var_name v := sum_list (zeros (var_shape v)))\<rparr>
      else st\<lparr>vectors := (vectors st)(var_name v := zeros (var_shape v))\<rparr>)"

text \<open>\<open>tf.initialize_local_variables()\<close>: runs the initializer of every local variable.\<close>

definition initialize_local_variables :: "variable list \<Rightarrow> store \<Rightarrow> store" where
  "initialize_local_variables vs st = fold initializer vs st"

text \<open>
  \<open>variable_op_scope(values, name, default_name)\<close> inside the scope \<open>outer\<close>; the scope
  the source keeps on a stack is an explicit argument here.
\<close>

definition variable_op_scope :: "string \<Rightarrow> string option \<Rightarrow> string \<Rightarrow> string" where
  "variable_op_scope outer name default_name =
     (let n = (case name of Some n \<Rightarrow> n | None \<Rightarrow> default_name)
      in if outer = [] then n else outer @ ''/'' @ n)"

text \<open>Python's \<open>name or default\<close>.\<close>

definition name_or :: "string option \<Rightarrow> string \<Rightarrow> string option" where
  "name_or name d = (case name of None \<Rightarrow> Some d | Some n \<Rightarrow> if n = [] then Some d else Some n)"

definition const_op :: "'a \<Rightarrow> 'a op" where
  "const_op c = (\<lambda>st. (c, st))"

text \<open>Reading a variable (or \<open>array_ops.identity\<close> of one) when its consumer is evaluated.\<close>

definition read_scalar :: "variable \<Rightarrow> real op" where
  "read_scalar v = (\<lambda>st. (scalars st (var_name v), st))"

definition read_vector :: "variable \<Rightarrow> real list op" where
  "read_vector v = (\<lambda>st. (vectors st (var_name v), st))"

definition identity :: "'a op \<Rightarrow> 'a op" where
  "identity x = x"

text \<open>\<open>state_ops.assign_add(ref, value)\<close>: increments the variable and returns its new value.\<close>

definition assign_add :: "variable \<Rightarrow> real \<Rightarrow> real op" where
  "assign_add v delta =
     (\<lambda>st. let x = scalars st (var_name v) + delta
           in (x, st\<lparr>scalars := (scalars st)(var_name v := x)\<rparr>))"

definition assign_add_vector :: "variable \<Rightarrow> real list \<Rightarrow> real list op" where
  "assign_add_vector v delta =
     (\<lambda>st. let x = map2 (+) (vectors st (var_name v)) delta
           in (x, st\<lparr>vectors := (vectors st)(var_name v := x)\<rparr>))"

definition lift1 :: "('a \<Rightarrow> 'b) \<Rightarrow> 'a op \<Rightarrow> 'b op" where
  "lift1 f a = (\<lambda>st. let (x, s1) = a st in (f x, s1))"

definition lift2 :: "('a \<Rightarrow> 'b \<Rightarrow> 'c) \<Rightarrow> 'a op \<Rightarrow> 'b op \<Rightarrow> 'c op" where
  "lift2 f a b = (\<lambda>st. let (x, s1) = a st; (y, s2) = b s1 in (f x y, s2))"

definition math_greater :: "real op \<Rightarrow> real op \<Rightarrow> bool op" where
  "math_greater = lift2 (\<lambda>x y. x > y)"

definition math_div :: "real op \<Rightarrow> real op \<Rightarrow> real op" where
  "math_div = lift2 (\<lambda>x y. x / y)"

definition math_add :: "real op \<Rightarrow> real op \<Rightarrow> real op" where
  "math_add = lift2 (\<lambda>x y. x + y)"

definition math_sub :: "real op \<Rightarrow> real op \<Rightarrow> real op" where
  "math_sub = lift2 (\<lambda>x y. x - y)"

definition math_sqrt :: "real op \<Rightarrow> real op" where
  "math_sqrt = lift1 sqrt"

definition math_select :: "bool op \<Rightarrow> 'a op \<Rightarrow> 'a op \<Rightarrow> 'a op" where
  "math_select c t e =
     (\<lambda>st. let (b, s1) = c st; (x, s2) = t s1; (y, s3) = e s2
           in ((if b then x else y), s3))"

text \<open>
  \<open>with ops.control_dependencies(deps): body\<close>: the op \<open>body\<close> runs after every op of
  \<open>deps\<close> has run.
\<close>

definition control_dependencies :: "'b op list \<Rightarrow> 'a op \<Rightarrow> 'a op" where
  "control_dependencies deps body = (\<lambda>st. body (fold (\<lambda>d s. snd (d s)) deps st))"

text \<open>
  A tensor computed by an op \<open>x\<close> that was built outside the block, consumed by an op
  built inside it. Nothing orders \<open>x\<close> after the ops the block names: its inputs are ready
  when the run starts, while the named increments wait for the computation over the batch.
  It is evaluated on the store the run starts from, and the consumer receives its value.
\<close>

definition built_outside :: "'a op \<Rightarrow> ('a op \<Rightarrow> 'b op) \<Rightarrow> 'b op" where
  "built_outside x consumer = (\<lambda>st. consumer (const_op (fst (x st))) st)"

text \<open>What a metric declaration returns, with the local variables it created.\<close>

record metric =
  value_tensor :: "real op"
  update_op :: "real op"
  local_variables :: "variable list"

text \<open>\<open>session.run(op)\<close> on a store.\<close>

definition run :: "'a op \<Rightarrow> store \<Rightarrow> 'a \<times> store" where
  "run x st = x st"

subsection \<open>\<open>streaming_mean\<close>\<close>

text \<open>
  The values and weights are tensors of reals already, so the two \<open>to_float\<close> casts of
  the source are the identity and are not written.
\<close>

definition compute_mean :: "real op \<Rightarrow> real op \<Rightarrow> real op" where
  "compute_mean total_v count_v =
     math_select (math_greater count_v (const_op 0)) (math_div total_v count_v) (const_op 0)"

definition streaming_mean :: "real tensor \<Rightarrow> real tensor option \<Rightarrow> string option \<Rightarrow> error + metric" where
  "streaming_mean values weights name =
     (let scope = variable_op_scope [] name ''mean'';
          total_v = create_local scope ''total'' [];
          count_v = create_local scope ''count'' []
      in case (case weights of
                 Some w \<Rightarrow>
                   if is_compatible_with (get_shape values) (get_shape w)
                   then Inr (data (map2_tensor (*) values w), reduce_sum (data w))
                   else Inl ValueError
               | None \<Rightarrow> Inr (data values, real (size_t values))) of
           Inl e \<Rightarrow> Inl e
         | Inr (vals, num_values) \<Rightarrow>
             let total_compute_op = assign_add total_v (reduce_sum vals);
                 count_compute_op = assign_add count_v num_values;
                 mean = compute_mean (read_scalar total_v) (read_scalar count_v);
                 update = control_dependencies [total_compute_op, count_compute_op]
                            (compute_mean (read_scalar total_v) (read_scalar count_v))
             in Inr \<lparr>value_tensor = mean, update_op = update,
                     local_variables = [total_v, count_v]\<rparr>)"

subsection \<open>Shape alignment\<close>

text \<open>
  Modelled from the spec: \<open>array_ops.squeeze(t, [-1])\<close> is not under \<open>src/\<close>. The spec
  drops a trailing dimension only when it is a singleton, and makes shapes that stay
  incompatible a failure of the declaration; so the squeeze drops a trailing dimension of
  size 1, leaving the elements unchanged, and is an error on any other trailing dimension.
\<close>

definition squeeze_last :: "'a tensor \<Rightarrow> error + 'a tensor" where
  "squeeze_last t =
     (if dims t \<noteq> [] \<and> last (dims t) = 1 then Inr (t\<lparr>dims := butlast (dims t)\<rparr>)
      else Inl ValueError)"

definition remove_squeezable_dimensions ::
    "'a tensor \<Rightarrow> 'b tensor \<Rightarrow> error + ('a tensor \<times> 'b tensor)" where
  "remove_squeezable_dimensions predictions labels =
     (let predictions_rank = ndims (get_shape predictions);
          labels_rank = ndims (get_shape labels)
      in case (labels_rank, predictions_rank) of
           (Some lr, Some pr) \<Rightarrow>
             if lr = pr + 1 then
               (case squeeze_last labels of
                  Inl e \<Rightarrow> Inl e
                | Inr labels' \<Rightarrow> Inr (predictions, labels'))
             else if pr = lr + 1 then
               (case squeeze_last predictions of
                  Inl e \<Rightarrow> Inl e
                | Inr predictions' \<Rightarrow> Inr (predictions', labels))
             else Inr (predictions, labels)
         | _ \<Rightarrow> Inr (predictions, labels))"

text \<open>
  The two lines that open most declarations: the squeeze, then
  \<open>predictions.get_shape().assert_is_compatible_with(labels.get_shape())\<close>.
\<close>

definition aligned :: "'a tensor \<Rightarrow> 'b tensor \<Rightarrow> error + ('a tensor \<times> 'b tensor)" where
  "aligned predictions labels =
     (case remove_squeezable_dimensions predictions labels of
        Inl e \<Rightarrow> Inl e
      | Inr (p, l) \<Rightarrow>
          if is_compatible_with (get_shape p) (get_shape l) then Inr (p, l)
          else Inl ValueError)"

subsection \<open>Counting accumulators\<close>

definition mask_to_weights :: "bool tensor option \<Rightarrow> bool tensor option" where
  "mask_to_weights msk =
     (case msk of Some m \<Rightarrow> Some (logical_not m) | None \<Rightarrow> None)"

definition count_condition :: "string \<Rightarrow> bool tensor \<Rightarrow> bool tensor option \<Rightarrow> error + metric" where
  "count_condition scope values ignore_mask =
     (let count_v = create_local scope ''count'' []
      in case (case ignore_mask of
                 Some msk \<Rightarrow>
                   if is_compatible_with (get_shape values) (get_shape msk)
                   then Inr (select_elems (data msk) (zeros_like values) (data values))
                   else Inl ValueError
               | None \<Rightarrow> Inr (data values)) of
           Inl e \<Rightarrow> Inl e
         | Inr vals \<Rightarrow>
             Inr \<lparr>value_tensor = identity (read_scalar count_v),
                  update_op = assign_add count_v (reduce_sum (map to_float vals)),
                  local_variables = [count_v]\<rparr>)"

definition streaming_true_positives ::
    "string \<Rightarrow> real tensor \<Rightarrow> real tensor \<Rightarrow> bool tensor option \<Rightarrow> string option \<Rightarrow> error + metric" where
  "streaming_true_positives outer predictions labels ignore_mask name =
     (let scope = variable_op_scope outer name ''true_positives''
      in if is_compatible_with (get_shape predictions) (get_shape labels)
         then count_condition scope
                (map2_tensor (\<lambda>l p. l = 1 \<and> p = 1) labels predictions) ignore_mask
         else Inl ValueError)"

definition streaming_false_positives ::
    "string \<Rightarrow> real tensor \<Rightarrow> real tensor \<Rightarrow> bool tensor option \<Rightarrow> string option \<Rightarrow> error + metric" where
  "streaming_false_positives outer predictions labels ignore_mask name =
     (let scope = variable_op_scope outer name ''false_positives''
      in if is_compatible_with (get_shape predictions) (get_shape labels)
         then count_condition scope
                (map2_tensor (\<lambda>l p. l = 0 \<and> p = 1) labels predictions) ignore_mask
         else Inl ValueError)"

definition streaming_false_negatives ::
    "string \<Rightarrow> real tensor \<Rightarrow> real tensor \<Rightarrow> bool tensor option \<Rightarrow> string option \<Rightarrow> error + metric" where
  "streaming_false_negatives outer predictions labels ignore_mask name =
     (let scope = variable_op_scope outer name ''false_negatives''
      in if is_compatible_with (get_shape predictions) (get_shape labels)
         then count_condition scope
                (map2_tensor (\<lambda>l p. l = 1 \<and> p = 0) labels predictions) ignore_mask
         else Inl ValueError)"

subsection \<open>Accuracy, precision and recall\<close>

definition streaming_accuracy ::
    "real tensor \<Rightarrow> real tensor \<Rightarrow> real tensor option \<Rightarrow> string option \<Rightarrow> error + metric" where
  "streaming_accuracy predictions labels weights name =
     (case aligned predictions labels of
        Inl e \<Rightarrow> Inl e
      | Inr (p, l) \<Rightarrow>
          let is_correct = map_tensor to_float (map2_tensor (=) p l)
          in streaming_mean is_correct weights (name_or name ''accuracy''))"

definition compute_precision :: "real op \<Rightarrow> real op \<Rightarrow> real op" where
  "compute_precision true_positives false_positives =
     math_select (math_greater (math_add true_positives false_positives) (const_op 0))
       (math_div true_positives (math_add true_positives false_positives))
       (const_op 0)"

definition compute_recall :: "real op \<Rightarrow> real op \<Rightarrow> real op" where
  "compute_recall true_positives false_negatives =
     math_select (math_greater (math_add true_positives false_negatives) (const_op 0))
       (math_div true_positives (math_add true_positives false_negatives))
       (const_op 0)"

definition streaming_precision ::
    "real tensor \<Rightarrow> real tensor \<Rightarrow> bool tensor option \<Rightarrow> string option \<Rightarrow> error + metric" where
  "streaming_precision predictions labels ignore_mask name =
     (let scope = variable_op_scope [] name ''precision''
      in case aligned predictions labels of
           Inl e \<Rightarrow> Inl e
         | Inr (p, l) \<Rightarrow>
             (case streaming_true_positives scope p l ignore_mask None of
                Inl e \<Rightarrow> Inl e
              | Inr tp \<Rightarrow>
                  (case streaming_false_positives scope p l ignore_mask None of
                     Inl e \<Rightarrow> Inl e
                   | Inr fp \<Rightarrow>
                       Inr \<lparr>value_tensor = compute_precision (value_tensor tp) (value_tensor fp),
                            update_op = control_dependencies [update_op tp, update_op fp]
                                          (compute_precision (value_tensor tp) (value_tensor fp)),
                            local_variables = local_variables tp @ local_variables fp\<rparr>)))"

definition streaming_recall ::
    "real tensor \<Rightarrow> real tensor \<Rightarrow> bool tensor option \<Rightarrow> string option \<Rightarrow> error + metric" where
  "streaming_recall predictions labels ignore_mask name =
     (let scope = variable_op_scope [] name ''recall''
      in case aligned predictions labels of
           Inl e \<Rightarrow> Inl e
         | Inr (p, l) \<Rightarrow>
             (case streaming_true_positives scope p l ignore_mask None of
                Inl e \<Rightarrow> Inl e
              | Inr tp \<Rightarrow>
                  (case streaming_false_negatives scope p l ignore_mask None of
                     Inl e \<Rightarrow> Inl e
                   | Inr fn \<Rightarrow>
                       Inr \<lparr>value_tensor = compute_recall (value_tensor tp) (value_tensor fn),
                            update_op = control_dependencies [update_op tp, update_op fn]
                                          (compute_recall (value_tensor tp) (value_tensor fn)),
                            local_variables = local_variables tp @ local_variables fn\<rparr>)))"

subsection \<open>The threshold sweep of \<open>streaming_auc\<close>\<close>

text \<open>
  Rank-2 tensors of the sweep are lists of rows, one row per threshold.

  Modelled from the spec: \<open>math_ops.linspace\<close> is not under \<open>src/\<close>; it gives \<open>num\<close>
  evenly spaced points from \<open>start\<close> to \<open>stop\<close>, both included.
\<close>

definition linspace :: "real \<Rightarrow> real \<Rightarrow> nat \<Rightarrow> real list" where
  "linspace start stop num =
     (if num = 1 then [start]
      else map (\<lambda>i. start + real i * ((stop - start) / real (num - 1))) [0..<num])"

definition mat_map :: "('a \<Rightarrow> 'b) \<Rightarrow> 'a list list \<Rightarrow> 'b list list" where
  "mat_map f m = map (map f) m"

definition mat_map2 :: "('a \<Rightarrow> 'b \<Rightarrow> 'c) \<Rightarrow> 'a list list \<Rightarrow> 'b list list \<Rightarrow> 'c list list" where
  "mat_map2 f m1 m2 = map2 (map2 f) m1 m2"

text \<open>\<open>tile(transpose(column), [n, 1])\<close>: the column, laid out as a row, repeated \<open>n\<close> times.\<close>

definition tile_rows :: "'a list \<Rightarrow> nat \<Rightarrow> 'a list list" where
  "tile_rows column n = replicate n column"

text \<open>\<open>tile(expand_dims(v, [1]), [1, n])\<close>: each element of \<open>v\<close> repeated along its own row.\<close>

definition tile_columns :: "'a list \<Rightarrow> nat \<Rightarrow> 'a list list" where
  "tile_columns v n = map (replicate n) v"

definition mat_select :: "bool list list \<Rightarrow> 'a list list \<Rightarrow> 'a list list \<Rightarrow> 'a list list" where
  "mat_select c t e = map (\<lambda>(cr, tr, er). select_elems cr tr er) (zip c (zip t e))"

text \<open>\<open>reduce_sum(m, 1)\<close>: the sum of every row.\<close>

definition reduce_sum_rows :: "real list list \<Rightarrow> real list" where
  "reduce_sum_rows m = map sum_list m"

text \<open>\<open>array_ops.reshape(t, [-1, 1])\<close>: a column with the same elements.\<close>

definition reshape_column :: "'a tensor \<Rightarrow> 'a tensor" where
  "reshape_column t = t\<lparr>dims := [length (data t), 1]\<rparr>"

definition rank :: "'a tensor \<Rightarrow> nat" where
  "rank t = length (dims t)"

text \<open>
  \<open>logging_ops.Assert(condition, data)\<close> builds an op that fails, when it is run, if the
  condition is false.
\<close>

definition Assert :: "bool \<Rightarrow> (error + unit) op" where
  "Assert condition = (\<lambda>st. ((if condition then Inr () else Inl InvalidArgumentError), st))"

text \<open>
  The static shape of \<open>tile(transpose(t), [n, 1])\<close>: the tile has two multiples, so a
  known shape must have rank 2.
\<close>

definition tiled_transpose_shape :: "tensor_shape \<Rightarrow> nat \<Rightarrow> error + tensor_shape" where
  "tiled_transpose_shape s n =
     (case s of
        None \<Rightarrow> Inr None
      | Some [a, b] \<Rightarrow> Inr (Some [n * b, a])
      | Some _ \<Rightarrow> Inl ValueError)"

definition kepsilon :: real where
  "kepsilon = 1 / 10 ^ 7"

definition epsilon :: real where
  "epsilon = 1 / 10 ^ 6"

definition vec_add :: "real list op \<Rightarrow> real list op \<Rightarrow> real list op" where
  "vec_add = lift2 (map2 (+))"

definition vec_sub :: "real list op \<Rightarrow> real list op \<Rightarrow> real list op" where
  "vec_sub = lift2 (map2 (-))"

definition vec_mul :: "real list op \<Rightarrow> real list op \<Rightarrow> real list op" where
  "vec_mul = lift2 (map2 (*))"

definition vec_div :: "real list op \<Rightarrow> real list op \<Rightarrow> real list op" where
  "vec_div = lift2 (map2 (/))"

definition vec_add_scalar :: "real list op \<Rightarrow> real \<Rightarrow> real list op" where
  "vec_add_scalar v c = lift1 (map (\<lambda>x. x + c)) v"

definition vec_div_scalar :: "real list op \<Rightarrow> real \<Rightarrow> real list op" where
  "vec_div_scalar v c = lift1 (map (\<lambda>x. x / c)) v"

definition slice_to :: "nat \<Rightarrow> real list op \<Rightarrow> real list op" where
  "slice_to n v = lift1 (take n) v"

definition slice_from :: "nat \<Rightarrow> real list op \<Rightarrow> real list op" where
  "slice_from n v = lift1 (drop n) v"

definition reduce_sum_op :: "real list op \<Rightarrow> real op" where
  "reduce_sum_op v = lift1 reduce_sum v"

definition compute_auc :: "nat \<Rightarrow> real list op \<Rightarrow> real list op \<Rightarrow> real op" where
  "compute_auc num_thresholds false_positive_rate recall =
     reduce_sum_op
       (vec_mul
          (vec_sub (slice_to (num_thresholds - 1) false_positive_rate)
                   (slice_from 1 false_positive_rate))
          (vec_div_scalar
             (vec_add (slice_to (num_thresholds - 1) recall) (slice_from 1 recall)) 2))"

text \<open>
  The declaration of \<open>streaming_auc\<close>. The two \<open>Assert\<close> ops on the ranks are built and
  their results dropped, as in the source: no returned op depends on them. The two rate
  tensors \<open>false_positive_rate\<close> and \<open>recall\<close> are computed by ops built before the
  \<open>control_dependencies\<close> block, and both returned ops share them; only the slices, the
  product and the sum of \<open>compute_auc\<close> are built inside the block. The Python
  \<open>assert\<close> on \<open>squeeze(false_positives)\<close> indexes a shape that is empty when
  \<open>num_thresholds = 1\<close>, and the slice bound \<open>num_thresholds - 1\<close> is negative when
  \<open>num_thresholds = 0\<close>, which the slicing of this version refuses.
\<close>

definition streaming_auc ::
    "real tensor \<Rightarrow> real tensor \<Rightarrow> bool tensor option \<Rightarrow> nat \<Rightarrow> string option \<Rightarrow> error + metric" where
  "streaming_auc predictions labels ignore_mask num_thresholds name =
     (let scope = variable_op_scope [] name ''auc''
      in case aligned predictions labels of
           Inl e \<Rightarrow> Inl e
         | Inr (p, l) \<Rightarrow>
             let assert_predictions = Assert (rank p = 1);
                 assert_labels = Assert (rank l = 1);
                 p = reshape_column p;
                 l = reshape_column l;
                 num_predictions = length (data p);
                 thresh_tiled =
                   tile_columns (linspace (0 - kepsilon) (1 + kepsilon) num_thresholds)
                     num_predictions;
                 pred_tiled =
                   mat_map (\<lambda>b. if b then (1::int) else 0)
                     (mat_map2 (\<lambda>x t. x > t) (tile_rows (data p) num_thresholds) thresh_tiled);
                 labels_tiled = tile_rows (data l) num_thresholds;
                 labels_tiled_shape =
                   (if static_shape_known l then Some [num_thresholds, length (data l)]
                    else None);
                 true_positives = create_local scope ''true_positives'' [num_thresholds];
                 false_negatives = create_local scope ''false_negatives'' [num_thresholds];
                 true_negatives = create_local scope ''true_negatives'' [num_thresholds];
                 false_positives = create_local scope ''false_positives'' [num_thresholds];
                 is_true_positive =
                   mat_map to_float (mat_map2 (\<lambda>y x. y = 1 \<and> x = 1) labels_tiled pred_tiled);
                 is_false_negative =
                   mat_map to_float (mat_map2 (\<lambda>y x. y = 1 \<and> x = 0) labels_tiled pred_tiled);
                 is_false_positive =
                   mat_map to_float (mat_map2 (\<lambda>y x. y = 0 \<and> x = 1) labels_tiled pred_tiled);
                 is_true_negative =
                   mat_map to_float (mat_map2 (\<lambda>y x. y = 0 \<and> x = 0) labels_tiled pred_tiled)
             in case (case ignore_mask of
                        None \<Rightarrow>
                          Inr (is_true_positive, is_false_negative,
                               is_false_positive, is_true_negative)
                      | Some msk \<Rightarrow>
                          (case tiled_transpose_shape (get_shape msk) num_thresholds of
                             Inl e \<Rightarrow> Inl e
                           | Inr mask_tiled_shape \<Rightarrow>
                               if is_compatible_with labels_tiled_shape mask_tiled_shape
                               then
                                 let mask_tiled = tile_rows (data msk) num_thresholds;
                                     zeros_f = mat_map (\<lambda>y. 0) labels_tiled
                                 in Inr (mat_select mask_tiled zeros_f is_true_positive,
                                         mat_select mask_tiled zeros_f is_false_negative,
                                         mat_select mask_tiled zeros_f is_false_positive,
                                         mat_select mask_tiled zeros_f is_true_negative)
                               else Inl ValueError)) of
                    Inl e \<Rightarrow> Inl e
                  | Inr (is_tp, is_fn, is_fp, is_tn) \<Rightarrow>
                      let true_positives_compute_op =
                            assign_add_vector true_positives (reduce_sum_rows is_tp);
                          false_negatives_compute_op =
                            assign_add_vector false_negatives (reduce_sum_rows is_fn);
                          true_negatives_compute_op =
                            assign_add_vector true_negatives (reduce_sum_rows is_tn);
                          false_positives_compute_op =
                            assign_add_vector false_positives (reduce_sum_rows is_fp)
                      in if num_thresholds = 1 then Inl IndexError
                         else
                           let false_positive_rate =
                                 vec_div (read_vector false_positives)
                                   (vec_add_scalar
                                      (vec_add (read_vector false_positives)
                                               (read_vector true_negatives)) epsilon);
                               recall =
                                 vec_div (vec_add_scalar (read_vector true_positives) epsilon)
                                   (vec_add_scalar
                                      (vec_add (read_vector true_positives)
                                               (read_vector false_negatives)) epsilon)
                           in if num_thresholds = 0 then Inl NotImplementedError
                              else
                                Inr \<lparr>value_tensor =
                                       compute_auc num_thresholds false_positive_rate recall,
                                     update_op =
                                       built_outside false_positive_rate (\<lambda>fpr.
                                       built_outside recall (\<lambda>rcl.
                                         control_dependencies
                                           [true_positives_compute_op,
                                            false_negatives_compute_op,
                                            true_negatives_compute_op,
                                            false_positives_compute_op]
                                           (compute_auc num_thresholds fpr rcl))),
                                     local_variables =
                                       [true_positives, false_negatives,
                                        true_negatives, false_positives]\<rparr>)"

subsection \<open>The metrics built on \<open>streaming_mean\<close>\<close>

text \<open>
  \<open>streaming_mean\<close> casts its weights with \<open>to_float\<close>. Tensors are typed by their
  elements here, so the weights that \<open>_mask_to_weights\<close> derives from a boolean mask are
  cast where they are handed over.
\<close>

definition weights_of_mask :: "bool tensor option \<Rightarrow> real tensor option" where
  "weights_of_mask ignore_mask = map_option (map_tensor to_float) (mask_to_weights ignore_mask)"

text \<open>
  Modelled from the spec: \<open>nn.in_top_k(predictions, targets, k)\<close> is not under \<open>src/\<close>. For
  every row of class scores it tells whether the target class is among the \<open>k\<close> best:
  fewer than \<open>k\<close> classes score strictly higher.
\<close>

definition rows_of :: "'a tensor \<Rightarrow> 'a list list" where
  "rows_of t =
     (case dims t of
        [b, c] \<Rightarrow> map (\<lambda>i. take c (drop (i * c) (data t))) [0..<b]
      | _ \<Rightarrow> [])"

definition in_top_k :: "real tensor \<Rightarrow> nat tensor \<Rightarrow> nat \<Rightarrow> bool tensor" where
  "in_top_k predictions targets k =
     \<lparr>dims = dims targets,
      static_shape_known = (static_shape_known predictions \<and> static_shape_known targets),
      data = map2 (\<lambda>row t. t < length row \<and> length (filter (\<lambda>x. x > row ! t) row) < k)
               (rows_of predictions) (data targets)\<rparr>"

definition streaming_recall_at_k ::
    "real tensor \<Rightarrow> nat tensor \<Rightarrow> nat \<Rightarrow> bool tensor option \<Rightarrow> string option \<Rightarrow> error + metric" where
  "streaming_recall_at_k predictions labels k ignore_mask name =
     (let in_top = map_tensor to_float (in_top_k predictions labels k)
      in streaming_mean in_top (weights_of_mask ignore_mask) (name_or name ''recall_at_k''))"

definition streaming_mean_absolute_error ::
    "real tensor \<Rightarrow> real tensor \<Rightarrow> real tensor option \<Rightarrow> string option \<Rightarrow> error + metric" where
  "streaming_mean_absolute_error predictions labels weights name =
     (case aligned predictions labels of
        Inl e \<Rightarrow> Inl e
      | Inr (p, l) \<Rightarrow>
          let absolute_errors = map2_tensor (\<lambda>x y. \<bar>x - y\<bar>) p l
          in streaming_mean absolute_errors weights (name_or name ''mean_absolute_error''))"

definition streaming_mean_relative_error ::
    "real tensor \<Rightarrow> real tensor \<Rightarrow> real tensor \<Rightarrow> real tensor option \<Rightarrow> string option
       \<Rightarrow> error + metric" where
  "streaming_mean_relative_error predictions labels normalizer weights name =
     (case aligned predictions labels of
        Inl e \<Rightarrow> Inl e
      | Inr (p, l) \<Rightarrow>
          (case aligned p normalizer of
             Inl e \<Rightarrow> Inl e
           | Inr (p', nrm) \<Rightarrow>
               let relative_errors =
                     map2_tensor (\<lambda>x y. x / y) (map2_tensor (\<lambda>y x. \<bar>y - x\<bar>) l p') nrm
               in streaming_mean relative_errors weights
                    (name_or name ''mean_relative_error'')))"

definition streaming_mean_squared_error ::
    "real tensor \<Rightarrow> real tensor \<Rightarrow> real tensor option \<Rightarrow> string option \<Rightarrow> error + metric" where
  "streaming_mean_squared_error predictions labels weights name =
     (case aligned predictions labels of
        Inl e \<Rightarrow> Inl e
      | Inr (p, l) \<Rightarrow>
          let squared_error = map2_tensor (\<lambda>y x. (y - x) * (y - x)) l p
          in streaming_mean squared_error weights (name_or name ''mean_squared_error''))"

text \<open>
  In \<open>streaming_root_mean_squared_error\<close> the control dependency of the final \<open>sqrt\<close> names
  the update op that is also its input; an op runs once in a run, so the square root of
  the update op is all there is to run.
\<close>

definition streaming_root_mean_squared_error ::
    "real tensor \<Rightarrow> real tensor \<Rightarrow> real tensor option \<Rightarrow> string option \<Rightarrow> error + metric" where
  "streaming_root_mean_squared_error predictions labels weights name =
     (case aligned predictions labels of
        Inl e \<Rightarrow> Inl e
      | Inr (p, l) \<Rightarrow>
          (case streaming_mean_squared_error p l weights
                  (name_or name ''root_mean_squared_error'') of
             Inl e \<Rightarrow> Inl e
           | Inr mse \<Rightarrow>
               Inr \<lparr>value_tensor = math_sqrt (value_tensor mse),
                    update_op = math_sqrt (update_op mse),
                    local_variables = local_variables mse\<rparr>))"

text \<open>
  Modelled from the spec: \<open>math_ops.reduce_sum(t, reduction_indices=[dim], keep_dims=True)\<close>
  is not under \<open>src/\<close>. It sums along one axis and keeps that axis with size 1; an axis
  the tensor does not have is an error.
\<close>

definition reduce_sum_axis :: "nat \<Rightarrow> real tensor \<Rightarrow> error + real tensor" where
  "reduce_sum_axis d t =
     (if d < length (dims t) then
        let n = dims t ! d;
            inner = prod_list (drop (Suc d) (dims t));
            outer = prod_list (take d (dims t));
            block = (\<lambda>b. take (n * inner) (drop (b * n * inner) (data t)));
            row = (\<lambda>b j. take inner (drop (j * inner) (block b)));
            total_of = (\<lambda>b. fold (\<lambda>j acc. map2 (+) acc (row b j)) [0..<n] (replicate inner 0))
        in Inr (t\<lparr>dims := (dims t)[d := 1], data := concat (map total_of [0..<outer])\<rparr>)
      else Inl ValueError)"

definition streaming_mean_cosine_distance ::
    "real tensor \<Rightarrow> real tensor \<Rightarrow> nat \<Rightarrow> real tensor option \<Rightarrow> string option
       \<Rightarrow> error + metric" where
  "streaming_mean_cosine_distance predictions labels d weights name =
     (case aligned predictions labels of
        Inl e \<Rightarrow> Inl e
      | Inr (p, l) \<Rightarrow>
          (case reduce_sum_axis d (map2_tensor (*) p l) of
             Inl e \<Rightarrow> Inl e
           | Inr radial_diffs \<Rightarrow>
               (case streaming_mean radial_diffs weights
                       (name_or name ''mean_cosine_distance'') of
                  Inl e \<Rightarrow> Inl e
                | Inr m \<Rightarrow>
                    Inr \<lparr>value_tensor = math_sub (const_op 1) (value_tensor m),
                         update_op = math_sub (const_op 1) (update_op m),
                         local_variables = local_variables m\<rparr>)))"

definition streaming_percentage_less ::
    "real tensor \<Rightarrow> real \<Rightarrow> bool tensor option \<Rightarrow> string option \<Rightarrow> error + metric" where
  "streaming_percentage_less values threshold ignore_mask name =
     (let is_below_threshold = map_tensor (\<lambda>x. to_float (x < threshold)) values
      in streaming_mean is_below_threshold (weights_of_mask ignore_mask)
           (name_or name ''percentage_below_threshold''))"

subsection \<open>The metrics the module exports\<close>

text \<open>The twelve declarations listed in the module's docstring, with their arguments.\<close>

datatype metric_call =
    Streaming_accuracy "real tensor" "real tensor" "real tensor option" "string option"
  | Streaming_mean "real tensor" "real tensor option" "string option"
  | Streaming_recall "real tensor" "real tensor" "bool tensor option" "string option"
  | Streaming_precision "real tensor" "real tensor" "bool tensor option" "string option"
  | Streaming_auc "real tensor" "real tensor" "bool tensor option" nat "string option"
  | Streaming_recall_at_k "real tensor" "nat tensor" nat "bool tensor option" "string option"
  | Streaming_mean_absolute_error "real tensor" "real tensor" "real tensor option" "string option"
  | Streaming_mean_relative_error "real tensor" "real tensor" "real tensor"
      "real tensor option" "string option"
  | Streaming_mean_squared_error "real tensor" "real tensor" "real tensor option" "string option"
  | Streaming_root_mean_squared_error "real tensor" "real tensor" "real tensor option"
      "string option"
  | Streaming_mean_cosine_distance "real tensor" "real tensor" nat "real tensor option"
      "string option"
  | Streaming_percentage_less "real tensor" real "bool tensor option" "string option"

fun declare_metric :: "metric_call \<Rightarrow> error + metric" where
  "declare_metric (Streaming_accuracy p l w n) = streaming_accuracy p l w n"
| "declare_metric (Streaming_mean v w n) = streaming_mean v w n"
| "declare_metric (Streaming_recall p l i n) = streaming_recall p l i n"
| "declare_metric (Streaming_precision p l i n) = streaming_precision p l i n"
| "declare_metric (Streaming_auc p l i t n) = streaming_auc p l i t n"
| "declare_metric (Streaming_recall_at_k p l k i n) = streaming_recall_at_k p l k i n"
| "declare_metric (Streaming_mean_absolute_error p l w n) = streaming_mean_absolute_error p l w n"
| "declare_metric (Streaming_mean_relative_error p l z w n) =
     streaming_mean_relative_error p l z w n"
| "declare_metric (Streaming_mean_squared_error p l w n) = streaming_mean_squared_error p l w n"
| "declare_metric (Streaming_root_mean_squared_error p l w n) =
     streaming_root_mean_squared_error p l w n"
| "declare_metric (Streaming_mean_cosine_distance p l d w n) =
     streaming_mean_cosine_distance p l d w n"
| "declare_metric (Streaming_percentage_less v t i n) = streaming_percentage_less v t i n"

subsection \<open>Running a declared metric\<close>

text \<open>
  The usage the module's docstring shows: declare the metric, initialise its local
  variables, run the update op on the batch, then read the value tensor. The result
  pairs what the update op returned with what the value tensor reports afterwards.
\<close>

definition first_batch :: "error + metric \<Rightarrow> store \<Rightarrow> error + (real \<times> real)" where
  "first_batch d st =
     (case d of
        Inl e \<Rightarrow> Inl e
      | Inr m \<Rightarrow>
          let st0 = initialize_local_variables (local_variables m) st;
              (u, st1) = run (update_op m) st0;
              (v, st2) = run (value_tensor m) st1
          in Inr (u, v))"

text \<open>A sequence of update ops, run one after the other.\<close>

definition run_updates :: "metric list \<Rightarrow> store \<Rightarrow> store" where
  "run_updates ms st = fold (\<lambda>m s. snd (run (update_op m) s)) ms st"

text \<open>A store in which no variable has been written.\<close>

definition empty_store :: store where
  "empty_store = \<lparr>scalars = (\<lambda>_. 0), vectors = (\<lambda>_. [])\<rparr>"

text \<open>Tensors of known shape, for the examples: a vector and a matrix.\<close>

definition vector :: "'a list \<Rightarrow> 'a tensor" where
  "vector xs = \<lparr>dims = [length xs], static_shape_known = True, data = xs\<rparr>"

definition tensor_of :: "nat list \<Rightarrow> 'a list \<Rightarrow> 'a tensor" where
  "tensor_of ds xs = \<lparr>dims = ds, static_shape_known = True, data = xs\<rparr>"

subsection \<open>Properties of ops used in the proofs\<close>

text \<open>An op that leaves every store as it found it.\<close>

definition reads_only :: "'a op \<Rightarrow> bool" where
  "reads_only x \<longleftrightarrow> (\<forall>st. snd (x st) = st)"

text \<open>The update op returns what the value tensor reports on the store the update leaves.\<close>

definition update_then_value :: "metric \<Rightarrow> bool" where
  "update_then_value m \<longleftrightarrow>
     (\<forall>st. fst (update_op m st) = fst (value_tensor m (snd (update_op m st))))"

text \<open>
  The indicator sum the spec describes for a confusion counter: the positions that are not
  ignored and whose label and prediction satisfy \<open>f\<close>.
\<close>

definition spec_indicator_count ::
    "(real \<Rightarrow> real \<Rightarrow> bool) \<Rightarrow> bool tensor option \<Rightarrow> real tensor \<Rightarrow> real tensor \<Rightarrow> real" where
  "spec_indicator_count f ignore_mask labels predictions =
     (case ignore_mask of
        None \<Rightarrow>
          sum_list (map (\<lambda>(y, x). to_float (f y x)) (zip (data labels) (data predictions)))
      | Some msk \<Rightarrow>
          sum_list (map (\<lambda>(i, y, x). to_float (\<not> i \<and> f y x))
                      (zip (data msk) (zip (data labels) (data predictions)))))"

text \<open>
  The accumulators of a metric, in the order of their declaration: \<open>total\<close> and \<open>count\<close>
  for a metric built on \<open>streaming_mean\<close>, the two confusion counters for precision
  (true and false positives) and for recall (true positives and false negatives).
\<close>

definition accumulator :: "metric \<Rightarrow> nat \<Rightarrow> store \<Rightarrow> real" where
  "accumulator m i st = scalars st (var_name (local_variables m ! i))"

text \<open>
  The denominators the spec names: \<open>count\<close> for the mean family, \<open>TP + FP\<close> for precision,
  \<open>TP + FN\<close> for recall. The denominators of \<open>streaming_auc\<close> carry an epsilon and are not
  among them.
\<close>

fun zero_denominator :: "metric_call \<Rightarrow> metric \<Rightarrow> store \<Rightarrow> bool" where
  "zero_denominator (Streaming_precision p l i n) m st =
     (accumulator m 0 st + accumulator m 1 st = 0)"
| "zero_denominator (Streaming_recall p l i n) m st =
     (accumulator m 0 st + accumulator m 1 st = 0)"
| "zero_denominator (Streaming_auc p l i t n) m st = False"
| "zero_denominator c m st = (accumulator m 1 st = 0)"

text \<open>What each metric reports on a zero denominator.\<close>

fun fallback :: "metric_call \<Rightarrow> real" where
  "fallback (Streaming_mean_cosine_distance p l d w n) = 1"
| "fallback c = 0"

definition zero_count_value :: "metric \<Rightarrow> real \<Rightarrow> bool" where
  "zero_count_value m z \<longleftrightarrow> (\<forall>st. accumulator m 1 st = 0 \<longrightarrow> fst (value_tensor m st) = z)"

definition zero_sum_value :: "metric \<Rightarrow> bool" where
  "zero_sum_value m \<longleftrightarrow>
     (\<forall>st. accumulator m 0 st + accumulator m 1 st = 0 \<longrightarrow> fst (value_tensor m st) = 0)"

text \<open>
  The increment the spec describes for one confusion vector of the threshold sweep: for
  every cut point, the positions that are not ignored and whose label and thresholded
  prediction (\<open>score > threshold\<close>) satisfy \<open>f\<close>.
\<close>

definition sweep_counts ::
    "(real \<Rightarrow> bool \<Rightarrow> bool) \<Rightarrow> bool tensor option \<Rightarrow> real tensor \<Rightarrow> real tensor \<Rightarrow> nat \<Rightarrow> real list" where
  "sweep_counts f ignore_mask labels predictions t =
     map (\<lambda>th. spec_indicator_count (\<lambda>y x. f y (x > th)) ignore_mask labels predictions)
       (linspace (0 - kepsilon) (1 + kepsilon) t)"

text \<open>
  The scoped name of a confusion counter of \<open>streaming_precision\<close> or \<open>streaming_recall\<close>,
  and the value of a confusion vector of \<open>streaming_auc\<close> in a store.
\<close>

definition counter_name :: "string option \<Rightarrow> string \<Rightarrow> string \<Rightarrow> string" where
  "counter_name name metric_name counter =
     variable_op_scope (variable_op_scope [] name metric_name) None counter @ ''/count''"

definition auc_vector :: "store \<Rightarrow> string option \<Rightarrow> string \<Rightarrow> real list" where
  "auc_vector st name v = vectors st (variable_op_scope [] name ''auc'' @ ''/'' @ v)"

text \<open>The two rates of the spec at threshold index \<open>i\<close>, from the confusion vectors.\<close>

definition spec_fpr :: "store \<Rightarrow> string option \<Rightarrow> nat \<Rightarrow> real" where
  "spec_fpr st name i =
     auc_vector st name ''false_positives'' ! i /
       (auc_vector st name ''false_positives'' ! i + auc_vector st name ''true_negatives'' ! i
        + 1 / 10 ^ 6)"

definition spec_recall :: "store \<Rightarrow> string option \<Rightarrow> nat \<Rightarrow> real" where
  "spec_recall st name i =
     (auc_vector st name ''true_positives'' ! i + 1 / 10 ^ 6) /
       (auc_vector st name ''true_positives'' ! i + auc_vector st name ''false_negatives'' ! i
        + 1 / 10 ^ 6)"

text \<open>The four confusion vectors of \<open>streaming_auc\<close>, by the names of their variables.\<close>

definition auc_names :: "string list" where
  "auc_names = [''true_positives'', ''false_negatives'', ''true_negatives'', ''false_positives'']"

section \<open>Properties\<close>

subsection \<open>The ops of each declaration\<close>

lemmas op_defs = run_def compute_mean_def compute_precision_def compute_recall_def
  math_select_def math_greater_def math_div_def
  math_add_def math_sub_def math_sqrt_def lift1_def lift2_def const_op_def read_scalar_def
  read_vector_def assign_add_def assign_add_vector_def control_dependencies_def identity_def

lemma streaming_mean_form:
  assumes "streaming_mean values weights name = Inr m"
  shows "m = \<lparr>value_tensor =
                compute_mean (read_scalar (create_local (variable_op_scope [] name ''mean'') ''total'' []))
                  (read_scalar (create_local (variable_op_scope [] name ''mean'') ''count'' [])),
              update_op =
                control_dependencies
                  [assign_add (create_local (variable_op_scope [] name ''mean'') ''total'' [])
                     (case weights of None \<Rightarrow> sum_list (data values)
                      | Some w \<Rightarrow> sum_list (map2 (*) (data values) (data w))),
                   assign_add (create_local (variable_op_scope [] name ''mean'') ''count'' [])
                     (case weights of None \<Rightarrow> real (length (data values))
                      | Some w \<Rightarrow> sum_list (data w))]
                  (compute_mean (read_scalar (create_local (variable_op_scope [] name ''mean'') ''total'' []))
                     (read_scalar (create_local (variable_op_scope [] name ''mean'') ''count'' []))),
              local_variables =
                [create_local (variable_op_scope [] name ''mean'') ''total'' [],
                 create_local (variable_op_scope [] name ''mean'') ''count'' []]\<rparr>"
  using assms
  by (auto simp: streaming_mean_def Let_def reduce_sum_def size_t_def map2_tensor_def
      split: option.splits if_splits)

lemma compute_mean_run:
  "compute_mean (read_scalar tv) (read_scalar cv) st =
     ((if scalars st (var_name cv) > 0 then scalars st (var_name tv) / scalars st (var_name cv) else 0), st)"
  by (simp add: op_defs)

lemma streaming_mean_update_then_value:
  "streaming_mean values weights name = Inr m \<Longrightarrow> update_then_value m"
  by (drule streaming_mean_form) (simp add: update_then_value_def control_dependencies_def compute_mean_run)

lemma streaming_mean_reads_only:
  "streaming_mean values weights name = Inr m \<Longrightarrow> reads_only (value_tensor m)"
  by (drule streaming_mean_form) (simp add: reads_only_def compute_mean_run)

lemma count_condition_form:
  assumes "count_condition scope values ignore_mask = Inr m"
  shows "m = \<lparr>value_tensor = read_scalar (create_local scope ''count'' []),
              update_op = assign_add (create_local scope ''count'' [])
                (sum_list (map to_float
                   (case ignore_mask of
                      None \<Rightarrow> data values
                    | Some msk \<Rightarrow> select_elems (data msk) (zeros_like values) (data values)))),
              local_variables = [create_local scope ''count'' []]\<rparr>"
  using assms
  by (auto simp: count_condition_def Let_def identity_def reduce_sum_def
       split: option.splits if_splits)

lemma sqrt_update_then_value:
  "update_then_value x \<Longrightarrow>
   update_then_value \<lparr>value_tensor = math_sqrt (value_tensor x), update_op = math_sqrt (update_op x),
                       local_variables = vs\<rparr>"
  by (simp add: update_then_value_def math_sqrt_def lift1_def split_def Let_def)

lemma sub_update_then_value:
  "update_then_value x \<Longrightarrow>
   update_then_value \<lparr>value_tensor = math_sub (const_op c) (value_tensor x),
                       update_op = math_sub (const_op c) (update_op x), local_variables = vs\<rparr>"
  by (simp add: update_then_value_def math_sub_def lift2_def const_op_def split_def Let_def)

lemma sqrt_reads_only: "reads_only x \<Longrightarrow> reads_only (math_sqrt x)"
  by (simp add: reads_only_def math_sqrt_def lift1_def split_def Let_def)

lemma sub_reads_only: "reads_only x \<Longrightarrow> reads_only (math_sub (const_op c) x)"
  by (simp add: reads_only_def math_sub_def lift2_def const_op_def split_def Let_def)

lemma ratio_run:
  "math_select (math_greater (math_add (read_scalar a) (read_scalar b)) (const_op 0))
       (math_div (read_scalar a) (math_add (read_scalar a) (read_scalar b))) (const_op 0) st =
   ((if scalars st (var_name a) + scalars st (var_name b) > 0
     then scalars st (var_name a) / (scalars st (var_name a) + scalars st (var_name b)) else 0), st)"
  by (simp add: op_defs)

lemma streaming_precision_props:
  assumes "streaming_precision p l i n = Inr m"
  shows "update_then_value m" and "reads_only (value_tensor m)"
  using assms
  by (auto simp: streaming_precision_def streaming_true_positives_def streaming_false_positives_def
      Let_def update_then_value_def reads_only_def compute_precision_def ratio_run
      control_dependencies_def
      split: sum.splits if_splits dest!: count_condition_form)

lemma streaming_recall_props:
  assumes "streaming_recall p l i n = Inr m"
  shows "update_then_value m" and "reads_only (value_tensor m)"
  using assms
  by (auto simp: streaming_recall_def streaming_true_positives_def streaming_false_negatives_def
      Let_def update_then_value_def reads_only_def compute_recall_def ratio_run
      control_dependencies_def
      split: sum.splits if_splits dest!: count_condition_form)

lemma compute_auc_reads_only:
  assumes "reads_only fpr" "reads_only rcl"
  shows "reads_only (compute_auc t fpr rcl)"
  using assms
  by (simp add: reads_only_def compute_auc_def reduce_sum_op_def vec_mul_def vec_sub_def
      vec_div_scalar_def vec_add_def slice_to_def slice_from_def lift1_def lift2_def split_def)

lemma rates_read_only:
  "reads_only (vec_div (read_vector a) (vec_add_scalar (vec_add (read_vector a) (read_vector b)) c))"
  "reads_only (vec_div (vec_add_scalar (read_vector a) c)
                 (vec_add_scalar (vec_add (read_vector a) (read_vector b)) c))"
  by (simp_all add: reads_only_def vec_div_def vec_add_scalar_def vec_add_def lift1_def lift2_def
      read_vector_def)

lemma streaming_auc_reads_only:
  assumes "streaming_auc p l i t n = Inr m"
  shows "reads_only (value_tensor m)"
  using assms
  by (auto simp: streaming_auc_def Let_def
      split: sum.splits if_splits option.splits prod.splits
      intro!: compute_auc_reads_only rates_read_only)

lemma declare_metric_update_then_value:
  "declare_metric c = Inr m \<Longrightarrow> \<not> (\<exists>p l i t n. c = Streaming_auc p l i t n) \<Longrightarrow>
   update_then_value m"
  apply (cases c)
  apply (auto simp: streaming_accuracy_def streaming_recall_at_k_def
        streaming_mean_absolute_error_def streaming_mean_relative_error_def
        streaming_mean_squared_error_def streaming_root_mean_squared_error_def
        streaming_mean_cosine_distance_def streaming_percentage_less_def Let_def
        split: sum.splits
        dest: streaming_mean_update_then_value streaming_precision_props(1)
          streaming_recall_props(1)
        intro!: sqrt_update_then_value sub_update_then_value)
  done


lemma declare_metric_reads_only:
  "declare_metric c = Inr m \<Longrightarrow> reads_only (value_tensor m)"
  apply (cases c)
  apply (auto simp: streaming_accuracy_def streaming_recall_at_k_def
        streaming_mean_absolute_error_def streaming_mean_relative_error_def
        streaming_mean_squared_error_def streaming_root_mean_squared_error_def
        streaming_mean_cosine_distance_def streaming_percentage_less_def Let_def
        split: sum.splits
        dest: streaming_mean_reads_only streaming_precision_props(2)
          streaming_recall_props(2) streaming_auc_reads_only
        intro!: sqrt_reads_only sub_reads_only)
  apply (rule streaming_mean_reads_only, assumption)+
  done

lemmas decl_defs = streaming_precision_def streaming_recall_def streaming_true_positives_def
  streaming_false_positives_def streaming_false_negatives_def count_condition_def aligned_def
  remove_squeezable_dimensions_def squeeze_last_def get_shape_def ndims_def is_compatible_with_def
  vector_def tensor_of_def map2_tensor_def map_tensor_def variable_op_scope_def create_local_def
  reduce_sum_def to_float_def select_elems_def zeros_like_def name_or_def size_t_def
  streaming_mean_def

lemmas init_defs = first_batch_def initialize_local_variables_def initializer_def zeros_def
  empty_store_def

subsection \<open>Reading the value changes nothing\<close>

text \<open>
  Claim C8. For every metric, evaluating the value tensor never mutates an accumulator:
  the store it leaves is the store it found, so \<open>total\<close>, \<open>count\<close> and every confusion
  counter are unchanged, and a second evaluation with no update in between returns the
  same result.
\<close>

theorem value_tensor_never_mutates:
  assumes "declare_metric c = Inr m"
  shows "snd (run (value_tensor m) st) = st \<and>
         run (value_tensor m) (snd (run (value_tensor m) st)) = run (value_tensor m) st"
  using declare_metric_reads_only[OF assms]
  by (simp add: reads_only_def run_def)

theorem value_tensor_never_mutates_witness:
  "\<exists>m st. declare_metric (Streaming_recall (vector [1, 1, 0, 0]) (vector [1, 0, 1, 0]) None None)
          = Inr m \<and>
       st = snd (run (update_op m) empty_store) \<and>
       fst (run (value_tensor m) st) = 1 / 2 \<and>
       snd (run (value_tensor m) st) = st \<and>
       run (value_tensor m) (snd (run (value_tensor m) st)) = run (value_tensor m) st"
proof -
  obtain m where m:
    "declare_metric (Streaming_recall (vector [1, 1, 0, 0]) (vector [1, 0, 1, 0]) None None)
       = Inr m"
    by (simp add: decl_defs Let_def)
  have u: "fst (run (value_tensor m) (snd (run (update_op m) empty_store))) = 1 / 2"
    using m by (auto simp: decl_defs Let_def op_defs empty_store_def)
  from value_tensor_never_mutates[OF m, of "snd (run (update_op m) empty_store)"] u m
  show ?thesis by auto
qed

subsection \<open>\<open>streaming_mean\<close>\<close>

text \<open>
  Claim C2. The update op of \<open>streaming_mean\<close> increments \<open>total\<close> by the sum of
  \<open>values * weights\<close> and \<open>count\<close> by the sum of the weights when weights are given, and
  by the sum of the values and their number when they are not; its value is
  \<open>total / count\<close> when \<open>count > 0\<close> and \<open>0\<close> otherwise. The mean of \<open>[2, 4, 6]\<close> is
  \<open>4\<close> without weights, and \<open>4\<close> with the weights \<open>[1, 0, 1]\<close>.
\<close>

theorem streaming_mean_increments_and_value:
  "(streaming_mean values None name = Inr m \<longrightarrow>
      scalars (snd (run (update_op m) st)) (variable_op_scope [] name ''mean'' @ ''/total'') =
        scalars st (variable_op_scope [] name ''mean'' @ ''/total'') + sum_list (data values) \<and>
      scalars (snd (run (update_op m) st)) (variable_op_scope [] name ''mean'' @ ''/count'') =
        scalars st (variable_op_scope [] name ''mean'' @ ''/count'') + real (length (data values))) \<and>
   (streaming_mean values (Some w) name = Inr m \<longrightarrow>
      scalars (snd (run (update_op m) st)) (variable_op_scope [] name ''mean'' @ ''/total'') =
        scalars st (variable_op_scope [] name ''mean'' @ ''/total'') +
        sum_list (map2 (*) (data values) (data w)) \<and>
      scalars (snd (run (update_op m) st)) (variable_op_scope [] name ''mean'' @ ''/count'') =
        scalars st (variable_op_scope [] name ''mean'' @ ''/count'') + sum_list (data w)) \<and>
   (streaming_mean values weights name = Inr m \<longrightarrow>
      fst (run (value_tensor m) st) =
        (if scalars st (variable_op_scope [] name ''mean'' @ ''/count'') > 0
         then scalars st (variable_op_scope [] name ''mean'' @ ''/total'') /
              scalars st (variable_op_scope [] name ''mean'' @ ''/count'')
         else 0)) \<and>
   first_batch (streaming_mean (vector [2, 4, 6]) None None) st = Inr (4, 4) \<and>
   first_batch (streaming_mean (vector [2, 4, 6]) (Some (vector [1, 0, 1])) None) st = Inr (4, 4)"
proof (intro conjI impI)
  assume a: "streaming_mean values None name = Inr m"
  show "scalars (snd (run (update_op m) st)) (variable_op_scope [] name ''mean'' @ ''/total'') =
        scalars st (variable_op_scope [] name ''mean'' @ ''/total'') + sum_list (data values)"
    by (simp add: streaming_mean_form[OF a] op_defs create_local_def Let_def)
  show "scalars (snd (run (update_op m) st)) (variable_op_scope [] name ''mean'' @ ''/count'') =
        scalars st (variable_op_scope [] name ''mean'' @ ''/count'') + real (length (data values))"
    by (simp add: streaming_mean_form[OF a] op_defs create_local_def Let_def)
next
  assume a: "streaming_mean values (Some w) name = Inr m"
  show "scalars (snd (run (update_op m) st)) (variable_op_scope [] name ''mean'' @ ''/total'') =
        scalars st (variable_op_scope [] name ''mean'' @ ''/total'') +
        sum_list (map2 (*) (data values) (data w))"
    by (simp add: streaming_mean_form[OF a] op_defs create_local_def Let_def)
  show "scalars (snd (run (update_op m) st)) (variable_op_scope [] name ''mean'' @ ''/count'') =
        scalars st (variable_op_scope [] name ''mean'' @ ''/count'') + sum_list (data w)"
    by (simp add: streaming_mean_form[OF a] op_defs create_local_def Let_def)
next
  assume a: "streaming_mean values weights name = Inr m"
  show "fst (run (value_tensor m) st) =
        (if scalars st (variable_op_scope [] name ''mean'' @ ''/count'') > 0
         then scalars st (variable_op_scope [] name ''mean'' @ ''/total'') /
              scalars st (variable_op_scope [] name ''mean'' @ ''/count'')
         else 0)"
    by (simp add: streaming_mean_form[OF a] run_def compute_mean_run create_local_def)
next
  show "first_batch (streaming_mean (vector [2, 4, 6]) None None) st = Inr (4, 4)"
    by (simp add: decl_defs init_defs Let_def op_defs)
  show "first_batch (streaming_mean (vector [2, 4, 6]) (Some (vector [1, 0, 1])) None) st = Inr (4, 4)"
    by (simp add: decl_defs init_defs Let_def op_defs)
qed

theorem streaming_mean_increments_and_value_witness:
  "\<exists>m1 m2. streaming_mean (vector [2, 4, 6]) None None = Inr m1 \<and>
     streaming_mean (vector [2, 4, 6]) (Some (vector [1, 0, 1])) None = Inr m2 \<and>
     scalars (snd (run (update_op m1) empty_store)) ''mean/total'' = 12 \<and>
     scalars (snd (run (update_op m1) empty_store)) ''mean/count'' = 3 \<and>
     scalars (snd (run (update_op m2) empty_store)) ''mean/total'' = 8 \<and>
     scalars (snd (run (update_op m2) empty_store)) ''mean/count'' = 2 \<and>
     fst (run (value_tensor m2) (snd (run (update_op m2) empty_store))) = 4"
proof -
  obtain m1 where m1: "streaming_mean (vector [2, 4, 6]) None None = Inr m1"
    by (simp add: decl_defs Let_def)
  obtain m2 where m2: "streaming_mean (vector [2, 4, 6]) (Some (vector [1, 0, 1])) None = Inr m2"
    by (simp add: decl_defs Let_def)
  from streaming_mean_increments_and_value
         [of "vector [2, 4, 6]" None m1 empty_store "vector [1, 0, 1]" None]
       streaming_mean_increments_and_value
         [of "vector [2, 4, 6]" None m2 empty_store "vector [1, 0, 1]" "Some (vector [1, 0, 1])"]
       streaming_mean_increments_and_value
         [of "vector [2, 4, 6]" None m2 "snd (run (update_op m2) empty_store)" "vector [1, 0, 1]"
             "Some (vector [1, 0, 1])"]
       m1 m2
  show ?thesis
    by (simp add: variable_op_scope_def vector_def empty_store_def)
qed

text \<open>
  Claim C10. With a weights tensor of all ones, of the shape of \<open>values\<close>,
  \<open>streaming_mean\<close> declares the same update op and the same value tensor as without
  weights: the increments of \<open>total\<close> and \<open>count\<close>, and so the results of both ops, are
  the same.
\<close>

theorem unit_weights_same_as_unweighted:
  assumes "data w = replicate (length (data values)) 1"
    and "is_compatible_with (get_shape values) (get_shape w)"
  shows "\<exists>m1 m2. streaming_mean values (Some w) name = Inr m1 \<and>
           streaming_mean values None name = Inr m2 \<and>
           run (update_op m1) st = run (update_op m2) st \<and>
           run (value_tensor m1) st = run (value_tensor m2) st"
proof -
  have z: "map2 (*) xs (replicate (length xs) 1) = xs" for xs :: "real list"
    by (induction xs) auto
  have s: "sum_list (replicate n (1::real)) = real n" for n
    by (induction n) auto
  show ?thesis
    using assms
    by (simp add: streaming_mean_def Let_def map2_tensor_def reduce_sum_def size_t_def z s)
qed

theorem unit_weights_same_as_unweighted_witness:
  "data (vector [1, 1, 1 :: real]) = replicate (length (data (vector [2, 4, 6 :: real]))) 1 \<and>
   is_compatible_with (get_shape (vector [2, 4, 6 :: real])) (get_shape (vector [1, 1, 1 :: real])) \<and>
   (\<exists>m1 m2. streaming_mean (vector [2, 4, 6]) (Some (vector [1, 1, 1])) None = Inr m1 \<and>
      streaming_mean (vector [2, 4, 6]) None None = Inr m2 \<and>
      run (update_op m1) empty_store = run (update_op m2) empty_store \<and>
      run (value_tensor m1) empty_store = run (value_tensor m2) empty_store)"
proof -
  have h1: "data (vector [1, 1, 1 :: real]) = replicate (length (data (vector [2, 4, 6 :: real]))) 1"
    by (simp add: vector_def)
  have h2: "is_compatible_with (get_shape (vector [2, 4, 6 :: real]))
              (get_shape (vector [1, 1, 1 :: real]))"
    by (simp add: vector_def get_shape_def is_compatible_with_def)
  from unit_weights_same_as_unweighted[OF h1 h2, of None empty_store] h1 h2
  show ?thesis by blast
qed

subsection \<open>Zero denominators\<close>

lemma streaming_mean_zero_count:
  "streaming_mean values weights name = Inr m \<Longrightarrow> zero_count_value m 0"
  by (drule streaming_mean_form)
     (simp add: zero_count_value_def accumulator_def compute_mean_run)

lemma sqrt_zero_count:
  "zero_count_value x 0 \<Longrightarrow>
   zero_count_value \<lparr>value_tensor = math_sqrt (value_tensor x), update_op = u,
                      local_variables = local_variables x\<rparr> 0"
  by (simp add: zero_count_value_def accumulator_def math_sqrt_def lift1_def split_def Let_def)

lemma sub_zero_count:
  "zero_count_value x 0 \<Longrightarrow>
   zero_count_value \<lparr>value_tensor = math_sub (const_op 1) (value_tensor x), update_op = u,
                      local_variables = local_variables x\<rparr> 1"
  by (simp add: zero_count_value_def accumulator_def math_sub_def lift2_def const_op_def
      split_def Let_def)

lemma streaming_precision_zero_sum:
  "streaming_precision p l i n = Inr m \<Longrightarrow> zero_sum_value m"
  by (auto simp: streaming_precision_def streaming_true_positives_def streaming_false_positives_def
      Let_def zero_sum_value_def accumulator_def compute_precision_def ratio_run
      split: sum.splits if_splits dest!: count_condition_form)

lemma streaming_recall_zero_sum:
  "streaming_recall p l i n = Inr m \<Longrightarrow> zero_sum_value m"
  by (auto simp: streaming_recall_def streaming_true_positives_def streaming_false_negatives_def
      Let_def zero_sum_value_def accumulator_def compute_recall_def ratio_run
      split: sum.splits if_splits dest!: count_condition_form)

lemma declare_metric_zero_count:
  assumes "declare_metric c = Inr m"
  shows "case c of
           Streaming_precision p l i n \<Rightarrow> zero_sum_value m
         | Streaming_recall p l i n \<Rightarrow> zero_sum_value m
         | Streaming_auc p l i t n \<Rightarrow> True
         | _ \<Rightarrow> zero_count_value m (fallback c)"
  using assms
  apply (cases c)
  apply (auto simp: streaming_accuracy_def streaming_recall_at_k_def
        streaming_mean_absolute_error_def streaming_mean_relative_error_def
        streaming_mean_squared_error_def streaming_root_mean_squared_error_def
        streaming_mean_cosine_distance_def streaming_percentage_less_def Let_def
        split: sum.splits
        dest: streaming_mean_zero_count streaming_precision_zero_sum streaming_recall_zero_sum
        intro!: sqrt_zero_count sub_zero_count)
  done


text \<open>
  Claim C5, as amended. When the denominator accumulator of a finalization formula is
  exactly zero (\<open>count = 0\<close> for the metrics built on \<open>streaming_mean\<close>, \<open>TP + FP = 0\<close> for
  precision, \<open>TP + FN = 0\<close> for recall), the reported value is defined, never an error:
  it is \<open>0\<close> for every metric but \<open>streaming_mean_cosine_distance\<close>, which reports
  \<open>1 - 0 = 1\<close>.
\<close>

theorem zero_denominator_fallback:
  assumes "declare_metric c = Inr m" and "zero_denominator c m st"
  shows "fst (run (value_tensor m) st) = fallback c"
  using declare_metric_zero_count[OF assms(1)] assms(2)
  by (cases c) (auto simp: zero_count_value_def zero_sum_value_def run_def)

theorem zero_count_cosine_distance_counterexample:
  "\<exists>m. declare_metric
          (Streaming_mean_cosine_distance (tensor_of [1, 2] [1, 0]) (tensor_of [1, 2] [1, 0]) 1
             None None) = Inr m \<and>
       zero_denominator
          (Streaming_mean_cosine_distance (tensor_of [1, 2] [1, 0]) (tensor_of [1, 2] [1, 0]) 1
             None None) m empty_store \<and>
       accumulator m 1 empty_store = 0 \<and>
       fst (run (value_tensor m) empty_store) = 1 \<and>
       fst (run (value_tensor m) empty_store) \<noteq> 0"
  by (simp add: streaming_mean_cosine_distance_def reduce_sum_axis_def decl_defs Let_def
      op_defs empty_store_def accumulator_def)

theorem zero_denominator_fallback_witness:
  "(\<exists>m. declare_metric (Streaming_precision (vector [1, 1, 0, 0]) (vector [1, 0, 1, 0]) None None)
          = Inr m \<and>
       zero_denominator (Streaming_precision (vector [1, 1, 0, 0]) (vector [1, 0, 1, 0]) None None)
          m empty_store \<and>
       fst (run (value_tensor m) empty_store) = 0) \<and>
   (\<exists>m. declare_metric (Streaming_mean (vector [2, 4, 6]) None None) = Inr m \<and>
       zero_denominator (Streaming_mean (vector [2, 4, 6]) None None) m empty_store \<and>
       fst (run (value_tensor m) empty_store) = 0)"
proof -
  obtain m1 where m1:
    "declare_metric (Streaming_precision (vector [1, 1, 0, 0]) (vector [1, 0, 1, 0]) None None)
       = Inr m1"
    by (simp add: decl_defs Let_def)
  have z1: "zero_denominator
      (Streaming_precision (vector [1, 1, 0, 0]) (vector [1, 0, 1, 0]) None None) m1 empty_store"
    by (simp add: accumulator_def empty_store_def)
  obtain m2 where m2: "declare_metric (Streaming_mean (vector [2, 4, 6]) None None) = Inr m2"
    by (simp add: decl_defs Let_def)
  have z2: "zero_denominator (Streaming_mean (vector [2, 4, 6]) None None) m2 empty_store"
    by (simp add: accumulator_def empty_store_def)
  from zero_denominator_fallback[OF m1 z1] zero_denominator_fallback[OF m2 z2] m1 z1 m2 z2
  show ?thesis by auto
qed


subsection \<open>The squeeze of \<open>_remove_squeezable_dimensions\<close>\<close>

text \<open>
  Claim C6, as amended. When the known ranks of predictions and labels differ by exactly
  one and the last dimension of the higher-rank tensor is a singleton, that dimension is
  dropped before the shapes are checked for compatibility; when the ranks are equal (or
  both unknown), both tensors pass through unchanged.
\<close>

theorem remove_squeezable_dimensions_singleton:
  "(get_shape predictions = Some ps \<and> get_shape labels = Some ls \<and>
      length ls = length ps + 1 \<and> last ls = 1 \<longrightarrow>
      remove_squeezable_dimensions predictions labels =
        Inr (predictions, labels\<lparr>dims := butlast ls\<rparr>) \<and>
      aligned predictions labels =
        (if butlast ls = ps then Inr (predictions, labels\<lparr>dims := butlast ls\<rparr>)
         else Inl ValueError)) \<and>
   (get_shape predictions = Some ps \<and> get_shape labels = Some ls \<and>
      length ps = length ls + 1 \<and> last ps = 1 \<longrightarrow>
      remove_squeezable_dimensions predictions labels =
        Inr (predictions\<lparr>dims := butlast ps\<rparr>, labels) \<and>
      aligned predictions labels =
        (if butlast ps = ls then Inr (predictions\<lparr>dims := butlast ps\<rparr>, labels)
         else Inl ValueError)) \<and>
   (ndims (get_shape predictions) = ndims (get_shape labels) \<longrightarrow>
      remove_squeezable_dimensions predictions labels = Inr (predictions, labels))"
  by (auto simp: remove_squeezable_dimensions_def squeeze_last_def ndims_def get_shape_def
      aligned_def is_compatible_with_def Let_def split: if_splits option.splits)

theorem remove_squeezable_dimensions_singleton_witness:
  "remove_squeezable_dimensions (tensor_of [3] [1, 0, 1 :: real]) (tensor_of [3, 1] [1, 1, 0 :: real])
     = Inr (tensor_of [3] [1, 0, 1], tensor_of [3] [1, 1, 0]) \<and>
   aligned (tensor_of [3, 1] [1, 0, 1 :: real]) (tensor_of [3] [1, 1, 0 :: real])
     = Inr (tensor_of [3] [1, 0, 1], tensor_of [3] [1, 1, 0]) \<and>
   remove_squeezable_dimensions (tensor_of [3] [1, 0, 1 :: real]) (tensor_of [3] [1, 1, 0 :: real])
     = Inr (tensor_of [3] [1, 0, 1], tensor_of [3] [1, 1, 0])"
  using remove_squeezable_dimensions_singleton
          [of "tensor_of [3] [1, 0, 1 :: real]" "[3]" "tensor_of [3, 1] [1, 1, 0 :: real]" "[3, 1]"]
        remove_squeezable_dimensions_singleton
          [of "tensor_of [3, 1] [1, 0, 1 :: real]" "[3, 1]" "tensor_of [3] [1, 1, 0 :: real]" "[3]"]
        remove_squeezable_dimensions_singleton
          [of "tensor_of [3] [1, 0, 1 :: real]" "[3]" "tensor_of [3] [1, 1, 0 :: real]" "[3]"]
  by (simp add: get_shape_def ndims_def tensor_of_def)


theorem squeeze_of_wider_dimension_counterexample:
  "ndims (get_shape (tensor_of [2, 3] [1, 0, 0, 0, 1, 0 :: real])) = Some 2 \<and>
   ndims (get_shape (tensor_of [2] [0, 1 :: real])) = Some 1 \<and>
   remove_squeezable_dimensions
     (tensor_of [2, 3] [1, 0, 0, 0, 1, 0 :: real]) (tensor_of [2] [0, 1 :: real]) = Inl ValueError \<and>
   aligned (tensor_of [2, 3] [1, 0, 0, 0, 1, 0 :: real]) (tensor_of [2] [0, 1 :: real])
     = Inl ValueError"
  by (simp add: aligned_def remove_squeezable_dimensions_def squeeze_last_def ndims_def
      get_shape_def tensor_of_def Let_def)


subsection \<open>The threshold sweep\<close>

lemma length_linspace: "length (linspace a b n) = n"
  by (simp add: linspace_def)

lemma map2_replicate_map:
  "length ths = n \<Longrightarrow> map2 F (replicate n c) (map G ths) = map (\<lambda>th. F c (G th)) ths"
proof (induction ths arbitrary: n)
  case Nil
  then show ?case by simp
next
  case (Cons a ths)
  then show ?case by (cases n) auto
qed

lemma map2_replicate_right:
  "map2 f xs (replicate (length xs) c) = map (\<lambda>x. f x c) xs"
  by (induction xs) auto

lemma sweep_matrix:
  assumes "length ths = n"
  shows "mat_map2 f (tile_rows xs n) (tile_columns ths (length xs))
           = map (\<lambda>th. map (\<lambda>x. f x th) xs) ths"
  using map2_replicate_map[OF assms, of "map2 f" xs "replicate (length xs)"]
  by (simp add: mat_map2_def tile_rows_def tile_columns_def map2_replicate_right)

lemma labels_against_sweep:
  assumes "length ths = n"
  shows "mat_map2 g (tile_rows ys n) (map R ths) = map (\<lambda>th. map2 g ys (R th)) ths"
  using map2_replicate_map[OF assms, of "map2 g" ys R]
  by (simp add: mat_map2_def tile_rows_def)

lemma masked_rows:
  assumes "length ths = n"
  shows "mat_select (tile_rows ms n) (mat_map z (tile_rows ys n)) (map R ths)
         = map (\<lambda>th. select_elems ms (map z ys) (R th)) ths"
  using assms
proof (induction ths arbitrary: n)
  case Nil
  then show ?case by (simp add: mat_select_def)
next
  case (Cons a ths)
  then obtain k where k: "n = Suc k" "length ths = k" by (cases n) auto
  from Cons.IH[OF k(2)] show ?case
    by (simp add: k mat_select_def tile_rows_def mat_map_def)
qed

lemma select_zero_sum:
  "sum_list (select_elems ms (map (\<lambda>y. 0) ys) (map to_float (map2 P ys bs)))
   = sum_list (map (\<lambda>(i, y, b). to_float (\<not> i \<and> P y b)) (zip ms (zip ys bs)))"
proof (induction ms arbitrary: ys bs)
  case Nil
  then show ?case by (simp add: select_elems_def)
next
  case (Cons a ms)
  show ?case
  proof (cases ys)
    case Nil
    then show ?thesis by (simp add: select_elems_def)
  next
    case ys: (Cons y ys')
    show ?thesis
    proof (cases bs)
      case Nil
      then show ?thesis by (simp add: select_elems_def ys)
    next
      case bs: (Cons b bs')
      from Cons.IH[of ys' bs'] show ?thesis
        by (simp add: select_elems_def ys bs to_float_def)
    qed
  qed
qed

lemma aligned_data:
  "aligned p l = Inr (p', l') \<Longrightarrow>
     data p' = data p \<and> data l' = data l \<and>
     (static_shape_known l' = static_shape_known l) \<and>
     (static_shape_known p' = static_shape_known p)"
  by (auto simp: aligned_def remove_squeezable_dimensions_def squeeze_last_def Let_def
      split: sum.splits if_splits option.splits prod.splits)

lemma sweep_row_unmasked:
  "sum_list (map to_float (map2 P ys (map (\<lambda>x. if th < x then (1::int) else 0) xs)))
   = sum_list (map (\<lambda>(y, x). to_float (P y (if th < x then 1 else 0))) (zip ys xs))"
proof -
  have "map to_float (map2 P ys (map (\<lambda>x. if th < x then (1::int) else 0) xs))
        = map (\<lambda>(y, x). to_float (P y (if th < x then 1 else 0))) (zip ys xs)"
    by (simp add: zip_map2 split_def)
  then show ?thesis by simp
qed

lemma sweep_row_masked:
  "sum_list (select_elems ms (map (\<lambda>y. 0) ys)
      (map to_float (map2 P ys (map (\<lambda>x. if th < x then (1::int) else 0) xs))))
   = sum_list (map (\<lambda>(i, y, x). to_float (\<not> i \<and> P y (if th < x then 1 else 0)))
        (zip ms (zip ys xs)))"
proof -
  have "zip ms (zip ys (map (\<lambda>x. if th < x then (1::int) else 0) xs))
        = map (\<lambda>(i, y, x). (i, y, if th < x then 1 else 0)) (zip ms (zip ys xs))"
    by (simp add: zip_map2 split_def)
  then have "sum_list (map (\<lambda>(i, y, b). to_float (\<not> i \<and> P y b))
                (zip ms (zip ys (map (\<lambda>x. if th < x then (1::int) else 0) xs))))
             = sum_list (map (\<lambda>(i, y, x). to_float (\<not> i \<and> P y (if th < x then 1 else 0)))
                (zip ms (zip ys xs)))"
    by (simp add: split_def comp_def)
  then show ?thesis
    by (simp only: select_zero_sum)
qed

lemma rows_sum_map:
  "reduce_sum_rows (mat_map f (map G ths)) = map (\<lambda>th. sum_list (map f (G th))) ths"
  by (simp add: reduce_sum_rows_def mat_map_def comp_def)

lemma rows_sum_map':
  "reduce_sum_rows (map G ths) = map (\<lambda>th. sum_list (G th)) ths"
  by (simp add: reduce_sum_rows_def comp_def)

lemma mat_map_map:
  "mat_map f (map G ths) = map (\<lambda>th. map f (G th)) ths"
  by (simp add: mat_map_def comp_def)

lemma unmasked_sweep:
  "reduce_sum_rows (mat_map to_float (mat_map2 P (tile_rows ys t)
      (mat_map (\<lambda>b. if b then (1::int) else 0)
         (mat_map2 (\<lambda>x th. x > th) (tile_rows xs t)
            (tile_columns (linspace a b t) (length xs))))))
   = map (\<lambda>th. sum_list (map (\<lambda>(y, x). to_float (P y (if th < x then 1 else 0))) (zip ys xs)))
       (linspace a b t)"
proof -
  have 1: "mat_map (\<lambda>b. if b then (1::int) else 0)
         (mat_map2 (\<lambda>x th. x > th) (tile_rows xs t) (tile_columns (linspace a b t) (length xs)))
        = map (\<lambda>th. map (\<lambda>x. if th < x then 1 else 0) xs) (linspace a b t)"
    by (simp add: sweep_matrix[OF length_linspace] mat_map_def comp_def)
  show ?thesis
    unfolding 1 labels_against_sweep[OF length_linspace] rows_sum_map sweep_row_unmasked
    by (rule refl)
qed

lemma masked_sweep:
  "reduce_sum_rows (mat_select (tile_rows ms t) (mat_map (\<lambda>y. 0) (tile_rows ys t))
      (mat_map to_float (mat_map2 P (tile_rows ys t)
        (mat_map (\<lambda>b. if b then (1::int) else 0)
           (mat_map2 (\<lambda>x th. x > th) (tile_rows xs t)
              (tile_columns (linspace a b t) (length xs)))))))
   = map (\<lambda>th. sum_list (map (\<lambda>(i, y, x). to_float (\<not> i \<and> P y (if th < x then 1 else 0)))
                          (zip ms (zip ys xs))))
       (linspace a b t)"
proof -
  have 1: "mat_map (\<lambda>b. if b then (1::int) else 0)
         (mat_map2 (\<lambda>x th. x > th) (tile_rows xs t) (tile_columns (linspace a b t) (length xs)))
        = map (\<lambda>th. map (\<lambda>x. if th < x then 1 else 0) xs) (linspace a b t)"
    by (simp add: sweep_matrix[OF length_linspace] mat_map_def comp_def)
  have 2: "mat_map to_float (mat_map2 P (tile_rows ys t)
              (map (\<lambda>th. map (\<lambda>x. if th < x then (1::int) else 0) xs) (linspace a b t)))
        = map (\<lambda>th. map to_float (map2 P ys (map (\<lambda>x. if th < x then 1 else 0) xs)))
            (linspace a b t)"
    unfolding labels_against_sweep[OF length_linspace] mat_map_map
    by (rule refl)
  show ?thesis
    unfolding 1 2 masked_rows[OF length_linspace] rows_sum_map' sweep_row_masked
    by (rule refl)
qed

lemma thresholded_eq:
  "((if c then (1::int) else 0) = 1) = c" "((if c then (1::int) else 0) = 0) = (\<not> c)"
  by simp_all

lemma streaming_auc_form:
  assumes "streaming_auc p l i t name = Inr m"
  shows "m = \<lparr>value_tensor =
                compute_auc t
                  (vec_div (read_vector (create_local (variable_op_scope [] name ''auc'') ''false_positives'' [t]))
                     (vec_add_scalar
                        (vec_add (read_vector (create_local (variable_op_scope [] name ''auc'') ''false_positives'' [t]))
                                 (read_vector (create_local (variable_op_scope [] name ''auc'') ''true_negatives'' [t])))
                        epsilon))
                  (vec_div (vec_add_scalar (read_vector (create_local (variable_op_scope [] name ''auc'') ''true_positives'' [t])) epsilon)
                     (vec_add_scalar
                        (vec_add (read_vector (create_local (variable_op_scope [] name ''auc'') ''true_positives'' [t]))
                                 (read_vector (create_local (variable_op_scope [] name ''auc'') ''false_negatives'' [t])))
                        epsilon)),
              update_op =
                built_outside (vec_div (read_vector (create_local (variable_op_scope [] name ''auc'') ''false_positives'' [t]))
                     (vec_add_scalar
                        (vec_add (read_vector (create_local (variable_op_scope [] name ''auc'') ''false_positives'' [t]))
                                 (read_vector (create_local (variable_op_scope [] name ''auc'') ''true_negatives'' [t])))
                        epsilon)) (\<lambda>fpr. built_outside (vec_div (vec_add_scalar (read_vector (create_local (variable_op_scope [] name ''auc'') ''true_positives'' [t])) epsilon)
                     (vec_add_scalar
                        (vec_add (read_vector (create_local (variable_op_scope [] name ''auc'') ''true_positives'' [t]))
                                 (read_vector (create_local (variable_op_scope [] name ''auc'') ''false_negatives'' [t])))
                        epsilon)) (\<lambda>rcl.
                control_dependencies
                  [assign_add_vector (create_local (variable_op_scope [] name ''auc'') ''true_positives'' [t])
                     (sweep_counts (\<lambda>y b. y = 1 \<and> b) i l p t),
                   assign_add_vector (create_local (variable_op_scope [] name ''auc'') ''false_negatives'' [t])
                     (sweep_counts (\<lambda>y b. y = 1 \<and> \<not> b) i l p t),
                   assign_add_vector (create_local (variable_op_scope [] name ''auc'') ''true_negatives'' [t])
                     (sweep_counts (\<lambda>y b. y = 0 \<and> \<not> b) i l p t),
                   assign_add_vector (create_local (variable_op_scope [] name ''auc'') ''false_positives'' [t])
                     (sweep_counts (\<lambda>y b. y = 0 \<and> b) i l p t)]
                  (compute_auc t fpr rcl))),
              local_variables =
                [create_local (variable_op_scope [] name ''auc'') ''true_positives'' [t],
                 create_local (variable_op_scope [] name ''auc'') ''false_negatives'' [t],
                 create_local (variable_op_scope [] name ''auc'') ''true_negatives'' [t],
                 create_local (variable_op_scope [] name ''auc'') ''false_positives'' [t]]\<rparr>"
    and "2 \<le> t"
proof -
  from assms obtain p' l' where al: "aligned p l = Inr (p', l')"
    by (cases "aligned p l") (auto simp: streaming_auc_def Let_def)
  note d = aligned_data[OF al]
  show "2 \<le> t" using assms
    by (auto simp: streaming_auc_def al Let_def split: option.splits sum.splits if_splits)
  show "m = \<lparr>value_tensor =
                compute_auc t
                  (vec_div (read_vector (create_local (variable_op_scope [] name ''auc'') ''false_positives'' [t]))
                     (vec_add_scalar
                        (vec_add (read_vector (create_local (variable_op_scope [] name ''auc'') ''false_positives'' [t]))
                                 (read_vector (create_local (variable_op_scope [] name ''auc'') ''true_negatives'' [t])))
                        epsilon))
                  (vec_div (vec_add_scalar (read_vector (create_local (variable_op_scope [] name ''auc'') ''true_positives'' [t])) epsilon)
                     (vec_add_scalar
                        (vec_add (read_vector (create_local (variable_op_scope [] name ''auc'') ''true_positives'' [t]))
                                 (read_vector (create_local (variable_op_scope [] name ''auc'') ''false_negatives'' [t])))
                        epsilon)),
              update_op =
                built_outside (vec_div (read_vector (create_local (variable_op_scope [] name ''auc'') ''false_positives'' [t]))
                     (vec_add_scalar
                        (vec_add (read_vector (create_local (variable_op_scope [] name ''auc'') ''false_positives'' [t]))
                                 (read_vector (create_local (variable_op_scope [] name ''auc'') ''true_negatives'' [t])))
                        epsilon)) (\<lambda>fpr. built_outside (vec_div (vec_add_scalar (read_vector (create_local (variable_op_scope [] name ''auc'') ''true_positives'' [t])) epsilon)
                     (vec_add_scalar
                        (vec_add (read_vector (create_local (variable_op_scope [] name ''auc'') ''true_positives'' [t]))
                                 (read_vector (create_local (variable_op_scope [] name ''auc'') ''false_negatives'' [t])))
                        epsilon)) (\<lambda>rcl.
                control_dependencies
                  [assign_add_vector (create_local (variable_op_scope [] name ''auc'') ''true_positives'' [t])
                     (sweep_counts (\<lambda>y b. y = 1 \<and> b) i l p t),
                   assign_add_vector (create_local (variable_op_scope [] name ''auc'') ''false_negatives'' [t])
                     (sweep_counts (\<lambda>y b. y = 1 \<and> \<not> b) i l p t),
                   assign_add_vector (create_local (variable_op_scope [] name ''auc'') ''true_negatives'' [t])
                     (sweep_counts (\<lambda>y b. y = 0 \<and> \<not> b) i l p t),
                   assign_add_vector (create_local (variable_op_scope [] name ''auc'') ''false_positives'' [t])
                     (sweep_counts (\<lambda>y b. y = 0 \<and> b) i l p t)]
                  (compute_auc t fpr rcl))),
              local_variables =
                [create_local (variable_op_scope [] name ''auc'') ''true_positives'' [t],
                 create_local (variable_op_scope [] name ''auc'') ''false_negatives'' [t],
                 create_local (variable_op_scope [] name ''auc'') ''true_negatives'' [t],
                 create_local (variable_op_scope [] name ''auc'') ''false_positives'' [t]]\<rparr>"
    using assms
    by (auto simp: streaming_auc_def al Let_def d reshape_column_def unmasked_sweep masked_sweep
        sweep_counts_def spec_indicator_count_def thresholded_eq
        split: option.splits sum.splits if_splits)
qed

lemma compute_auc_snd:
  "snd (compute_auc t
          (vec_div (read_vector a) (vec_add_scalar (vec_add (read_vector a) (read_vector b)) c))
          (vec_div (vec_add_scalar (read_vector a') c')
             (vec_add_scalar (vec_add (read_vector a') (read_vector b')) c')) st) = st"
  using compute_auc_reads_only[OF rates_read_only(1) rates_read_only(2)]
  by (simp add: reads_only_def)

lemma const_reads_only: "reads_only (const_op c)"
  by (simp add: reads_only_def const_op_def)

lemma compute_auc_const_snd: "snd (compute_auc t (const_op a) (const_op b) st) = st"
  using compute_auc_reads_only[OF const_reads_only const_reads_only]
  by (simp add: reads_only_def)

lemma compute_auc_of_values:
  assumes "reads_only x" "reads_only y"
  shows "fst (compute_auc t (const_op (fst (x st))) (const_op (fst (y st))) st')
         = fst (compute_auc t x y st)"
  using assms
  by (simp add: reads_only_def compute_auc_def reduce_sum_op_def vec_mul_def vec_sub_def
      vec_div_scalar_def vec_add_def slice_to_def slice_from_def lift1_def lift2_def const_op_def
      split_def)

lemma compute_auc_fst:
  "fst (compute_auc t
          (vec_div (read_vector fp) (vec_add_scalar (vec_add (read_vector fp) (read_vector tn)) c))
          (vec_div (vec_add_scalar (read_vector tp) c)
             (vec_add_scalar (vec_add (read_vector tp) (read_vector fn)) c)) st) =
   (let FP = vectors st (var_name fp); TN = vectors st (var_name tn);
        TP = vectors st (var_name tp); FN = vectors st (var_name fn);
        fpr = map2 (/) FP (map (\<lambda>x. x + c) (map2 (+) FP TN));
        rcl = map2 (/) (map (\<lambda>x. x + c) TP) (map (\<lambda>x. x + c) (map2 (+) TP FN))
    in sum_list (map2 (*) (map2 (-) (take (t - 1) fpr) (drop 1 fpr))
                   (map (\<lambda>x. x / 2) (map2 (+) (take (t - 1) rcl) (drop 1 rcl)))))"
  by (simp add: compute_auc_def reduce_sum_op_def vec_mul_def vec_sub_def vec_div_def
      vec_add_def vec_add_scalar_def vec_div_scalar_def slice_to_def slice_from_def
      lift1_def lift2_def read_vector_def reduce_sum_def Let_def)

lemma streaming_auc_update_store:
  assumes "streaming_auc p l i t name = Inr m"
  shows "snd (run (update_op m) st) =
     st\<lparr>vectors := (vectors st)
        (variable_op_scope [] name ''auc'' @ ''/true_positives'' :=
           map2 (+) (vectors st (variable_op_scope [] name ''auc'' @ ''/true_positives''))
             (sweep_counts (\<lambda>y b. y = 1 \<and> b) i l p t),
         variable_op_scope [] name ''auc'' @ ''/false_negatives'' :=
           map2 (+) (vectors st (variable_op_scope [] name ''auc'' @ ''/false_negatives''))
             (sweep_counts (\<lambda>y b. y = 1 \<and> \<not> b) i l p t),
         variable_op_scope [] name ''auc'' @ ''/true_negatives'' :=
           map2 (+) (vectors st (variable_op_scope [] name ''auc'' @ ''/true_negatives''))
             (sweep_counts (\<lambda>y b. y = 0 \<and> \<not> b) i l p t),
         variable_op_scope [] name ''auc'' @ ''/false_positives'' :=
           map2 (+) (vectors st (variable_op_scope [] name ''auc'' @ ''/false_positives''))
             (sweep_counts (\<lambda>y b. y = 0 \<and> b) i l p t))\<rparr>"
  by (subst streaming_auc_form(1)[OF assms])
     (simp add: run_def built_outside_def control_dependencies_def compute_auc_const_snd
        assign_add_vector_def Let_def create_local_def)

lemma streaming_auc_update_result:
  assumes "streaming_auc p l i t name = Inr m"
  shows "fst (run (update_op m) st) = fst (run (value_tensor m) st)"
  by (subst (1 2) streaming_auc_form(1)[OF assms])
     (simp add: run_def built_outside_def control_dependencies_def
        compute_auc_of_values[OF rates_read_only(1) rates_read_only(2)])

subsection \<open>Confusion counters, precision and recall\<close>

lemma select_false_sum:
  "sum_list (map to_float (select_elems ms (replicate (length (map2 f ys xs)) False) (map2 f ys xs)))
   = sum_list (map (\<lambda>(i, y, x). to_float (\<not> i \<and> f y x)) (zip ms (zip ys xs)))"
proof (induction ms arbitrary: ys xs)
  case Nil
  then show ?case by (simp add: select_elems_def)
next
  case (Cons a ms)
  show ?case
  proof (cases ys)
    case Nil
    then show ?thesis by (simp add: select_elems_def)
  next
    case ys: (Cons y ys')
    show ?thesis
    proof (cases xs)
      case Nil
      then show ?thesis by (simp add: select_elems_def ys)
    next
      case xs: (Cons x xs')
      from Cons.IH[of ys' xs'] show ?thesis
        by (simp add: select_elems_def ys xs to_float_def)
    qed
  qed
qed

lemma count_increment:
  "sum_list (map to_float
     (case i of
        None \<Rightarrow> data (map2_tensor f l p)
      | Some msk \<Rightarrow>
          select_elems (data msk) (zeros_like (map2_tensor f l p)) (data (map2_tensor f l p))))
   = spec_indicator_count f i l p"
proof (cases i)
  case None
  then show ?thesis
    by (simp add: spec_indicator_count_def map2_tensor_def split_def comp_def)
next
  case (Some msk)
  then show ?thesis
    using select_false_sum[of "data msk" f "data l" "data p"]
    by (simp add: spec_indicator_count_def map2_tensor_def zeros_like_def)
qed

lemma confusion_counter_form:
  "count_condition scope (map2_tensor f l p) i = Inr m \<Longrightarrow>
         m = \<lparr>value_tensor = read_scalar (create_local scope ''count'' []),
              update_op = assign_add (create_local scope ''count'' []) (spec_indicator_count f i l p),
              local_variables = [create_local scope ''count'' []]\<rparr>"
  by (drule count_condition_form) (simp only: count_increment)

lemma counter_names_differ:
  "counter_name name mn ''true_positives'' \<noteq> counter_name name mn ''false_positives''"
  "counter_name name mn ''true_positives'' \<noteq> counter_name name mn ''false_negatives''"
  by (simp_all add: counter_name_def variable_op_scope_def Let_def)

lemma streaming_precision_form:
  assumes "streaming_precision p l i name = Inr m"
  shows "m = \<lparr>value_tensor =
                compute_precision
                  (read_scalar \<lparr>var_name = counter_name name ''precision'' ''true_positives'', var_shape = []\<rparr>)
                  (read_scalar \<lparr>var_name = counter_name name ''precision'' ''false_positives'', var_shape = []\<rparr>),
              update_op =
                control_dependencies
                  [assign_add \<lparr>var_name = counter_name name ''precision'' ''true_positives'', var_shape = []\<rparr>
                     (spec_indicator_count (\<lambda>y x. y = 1 \<and> x = 1) i l p),
                   assign_add \<lparr>var_name = counter_name name ''precision'' ''false_positives'', var_shape = []\<rparr>
                     (spec_indicator_count (\<lambda>y x. y = 0 \<and> x = 1) i l p)]
                  (compute_precision
                  (read_scalar \<lparr>var_name = counter_name name ''precision'' ''true_positives'', var_shape = []\<rparr>)
                  (read_scalar \<lparr>var_name = counter_name name ''precision'' ''false_positives'', var_shape = []\<rparr>)),
              local_variables =
                [\<lparr>var_name = counter_name name ''precision'' ''true_positives'', var_shape = []\<rparr>,
                 \<lparr>var_name = counter_name name ''precision'' ''false_positives'', var_shape = []\<rparr>]\<rparr>"
proof -
  from assms obtain p' l' where al: "aligned p l = Inr (p', l')"
    by (cases "aligned p l") (auto simp: streaming_precision_def Let_def)
  note d = aligned_data[OF al]
  have c: "spec_indicator_count f i l' p' = spec_indicator_count f i l p" for f
    by (cases i) (simp_all add: spec_indicator_count_def d)
  show ?thesis
    using assms
    by (auto simp: streaming_precision_def al Let_def streaming_true_positives_def
        streaming_false_positives_def counter_name_def create_local_def c
        split: sum.splits if_splits dest!: confusion_counter_form)
qed

lemma streaming_recall_form:
  assumes "streaming_recall p l i name = Inr m"
  shows "m = \<lparr>value_tensor =
                compute_recall
                  (read_scalar \<lparr>var_name = counter_name name ''recall'' ''true_positives'', var_shape = []\<rparr>)
                  (read_scalar \<lparr>var_name = counter_name name ''recall'' ''false_negatives'', var_shape = []\<rparr>),
              update_op =
                control_dependencies
                  [assign_add \<lparr>var_name = counter_name name ''recall'' ''true_positives'', var_shape = []\<rparr>
                     (spec_indicator_count (\<lambda>y x. y = 1 \<and> x = 1) i l p),
                   assign_add \<lparr>var_name = counter_name name ''recall'' ''false_negatives'', var_shape = []\<rparr>
                     (spec_indicator_count (\<lambda>y x. y = 1 \<and> x = 0) i l p)]
                  (compute_recall
                  (read_scalar \<lparr>var_name = counter_name name ''recall'' ''true_positives'', var_shape = []\<rparr>)
                  (read_scalar \<lparr>var_name = counter_name name ''recall'' ''false_negatives'', var_shape = []\<rparr>)),
              local_variables =
                [\<lparr>var_name = counter_name name ''recall'' ''true_positives'', var_shape = []\<rparr>,
                 \<lparr>var_name = counter_name name ''recall'' ''false_negatives'', var_shape = []\<rparr>]\<rparr>"
proof -
  from assms obtain p' l' where al: "aligned p l = Inr (p', l')"
    by (cases "aligned p l") (auto simp: streaming_recall_def Let_def)
  note d = aligned_data[OF al]
  have c: "spec_indicator_count f i l' p' = spec_indicator_count f i l p" for f
    by (cases i) (simp_all add: spec_indicator_count_def d)
  show ?thesis
    using assms
    by (auto simp: streaming_recall_def al Let_def streaming_true_positives_def
        streaming_false_negatives_def counter_name_def create_local_def c
        split: sum.splits if_splits dest!: confusion_counter_form)
qed

lemma ratio_update_store:
  assumes "a \<noteq> b"
  shows "control_dependencies
                [assign_add \<lparr>var_name = a, var_shape = []\<rparr> da,
                 assign_add \<lparr>var_name = b, var_shape = []\<rparr> db] body st
         = body (st\<lparr>scalars := (scalars st)(a := scalars st a + da, b := scalars st b + db)\<rparr>)"
  using assms
  by (simp add: control_dependencies_def assign_add_def Let_def)

text \<open>
  Claim C3. Precision and recall are computed from confusion counters whose indicators
  are element-wise: a true positive is \<open>label = 1\<close> and \<open>prediction = 1\<close>, a false positive
  \<open>label = 0\<close> and \<open>prediction = 1\<close>, a false negative \<open>label = 1\<close> and \<open>prediction = 0\<close>.
  An ignore mask zeroes the indicator at the ignored positions before the sum; it never
  changes the predictions or labels the indicator is computed from. Precision is
  \<open>TP / (TP + FP)\<close> and recall \<open>TP / (TP + FN)\<close> when the denominator is positive (and
  \<open>0\<close> otherwise). On predictions \<open>[1, 1, 0, 0]\<close> and labels \<open>[1, 0, 1, 0]\<close> both are
  \<open>0.5\<close>.
\<close>

theorem precision_recall_confusion_counters:
  "(streaming_precision predictions labels ignore_mask name = Inr m \<longrightarrow>
      scalars (snd (run (update_op m) st)) (counter_name name ''precision'' ''true_positives'') =
        scalars st (counter_name name ''precision'' ''true_positives'') +
        spec_indicator_count (\<lambda>y x. y = 1 \<and> x = 1) ignore_mask labels predictions \<and>
      scalars (snd (run (update_op m) st)) (counter_name name ''precision'' ''false_positives'') =
        scalars st (counter_name name ''precision'' ''false_positives'') +
        spec_indicator_count (\<lambda>y x. y = 0 \<and> x = 1) ignore_mask labels predictions \<and>
      fst (run (value_tensor m) st) =
        (if scalars st (counter_name name ''precision'' ''true_positives'') +
            scalars st (counter_name name ''precision'' ''false_positives'') > 0
         then scalars st (counter_name name ''precision'' ''true_positives'') /
              (scalars st (counter_name name ''precision'' ''true_positives'') +
               scalars st (counter_name name ''precision'' ''false_positives''))
         else 0)) \<and>
   (streaming_recall predictions labels ignore_mask name = Inr m \<longrightarrow>
      scalars (snd (run (update_op m) st)) (counter_name name ''recall'' ''true_positives'') =
        scalars st (counter_name name ''recall'' ''true_positives'') +
        spec_indicator_count (\<lambda>y x. y = 1 \<and> x = 1) ignore_mask labels predictions \<and>
      scalars (snd (run (update_op m) st)) (counter_name name ''recall'' ''false_negatives'') =
        scalars st (counter_name name ''recall'' ''false_negatives'') +
        spec_indicator_count (\<lambda>y x. y = 1 \<and> x = 0) ignore_mask labels predictions \<and>
      fst (run (value_tensor m) st) =
        (if scalars st (counter_name name ''recall'' ''true_positives'') +
            scalars st (counter_name name ''recall'' ''false_negatives'') > 0
         then scalars st (counter_name name ''recall'' ''true_positives'') /
              (scalars st (counter_name name ''recall'' ''true_positives'') +
               scalars st (counter_name name ''recall'' ''false_negatives''))
         else 0)) \<and>
   first_batch (streaming_precision (vector [1, 1, 0, 0]) (vector [1, 0, 1, 0]) None None) st
     = Inr (1 / 2, 1 / 2) \<and>
   first_batch (streaming_recall (vector [1, 1, 0, 0]) (vector [1, 0, 1, 0]) None None) st
     = Inr (1 / 2, 1 / 2) \<and>
   first_batch (streaming_recall (vector [0, 1]) (vector [1, 1]) (Some (vector [True, False])) None) st
     = Inr (1, 1)"
proof (intro conjI impI)
  assume a: "streaming_precision predictions labels ignore_mask name = Inr m"
  note f = streaming_precision_form[OF a]
  show "scalars (snd (run (update_op m) st)) (counter_name name ''precision'' ''true_positives'') =
        scalars st (counter_name name ''precision'' ''true_positives'') +
        spec_indicator_count (\<lambda>y x. y = 1 \<and> x = 1) ignore_mask labels predictions"
    by (subst f)
       (simp add: ratio_update_store counter_names_differ compute_precision_def ratio_run run_def)
  show "scalars (snd (run (update_op m) st)) (counter_name name ''precision'' ''false_positives'') =
        scalars st (counter_name name ''precision'' ''false_positives'') +
        spec_indicator_count (\<lambda>y x. y = 0 \<and> x = 1) ignore_mask labels predictions"
    by (subst f)
       (simp add: ratio_update_store counter_names_differ compute_precision_def ratio_run run_def)
  show "fst (run (value_tensor m) st) =
        (if scalars st (counter_name name ''precision'' ''true_positives'') +
            scalars st (counter_name name ''precision'' ''false_positives'') > 0
         then scalars st (counter_name name ''precision'' ''true_positives'') /
              (scalars st (counter_name name ''precision'' ''true_positives'') +
               scalars st (counter_name name ''precision'' ''false_positives''))
         else 0)"
    by (subst f) (simp add: compute_precision_def ratio_run run_def)
next
  assume a: "streaming_recall predictions labels ignore_mask name = Inr m"
  note f = streaming_recall_form[OF a]
  show "scalars (snd (run (update_op m) st)) (counter_name name ''recall'' ''true_positives'') =
        scalars st (counter_name name ''recall'' ''true_positives'') +
        spec_indicator_count (\<lambda>y x. y = 1 \<and> x = 1) ignore_mask labels predictions"
    by (subst f)
       (simp add: ratio_update_store counter_names_differ compute_recall_def ratio_run run_def)
  show "scalars (snd (run (update_op m) st)) (counter_name name ''recall'' ''false_negatives'') =
        scalars st (counter_name name ''recall'' ''false_negatives'') +
        spec_indicator_count (\<lambda>y x. y = 1 \<and> x = 0) ignore_mask labels predictions"
    by (subst f)
       (simp add: ratio_update_store counter_names_differ compute_recall_def ratio_run run_def)
  show "fst (run (value_tensor m) st) =
        (if scalars st (counter_name name ''recall'' ''true_positives'') +
            scalars st (counter_name name ''recall'' ''false_negatives'') > 0
         then scalars st (counter_name name ''recall'' ''true_positives'') /
              (scalars st (counter_name name ''recall'' ''true_positives'') +
               scalars st (counter_name name ''recall'' ''false_negatives''))
         else 0)"
    by (subst f) (simp add: compute_recall_def ratio_run run_def)
next
  show "first_batch (streaming_precision (vector [1, 1, 0, 0]) (vector [1, 0, 1, 0]) None None) st
     = Inr (1 / 2, 1 / 2)"
    by (simp add: decl_defs init_defs Let_def op_defs)
  show "first_batch (streaming_recall (vector [1, 1, 0, 0]) (vector [1, 0, 1, 0]) None None) st
     = Inr (1 / 2, 1 / 2)"
    by (simp add: decl_defs init_defs Let_def op_defs)
  show "first_batch (streaming_recall (vector [0, 1]) (vector [1, 1]) (Some (vector [True, False])) None) st
     = Inr (1, 1)"
    by (simp add: decl_defs init_defs Let_def op_defs)
qed

theorem precision_recall_confusion_counters_witness:
  "\<exists>m1 m2.
     streaming_precision (vector [1, 1, 0, 0]) (vector [1, 0, 1, 0]) None None = Inr m1 \<and>
     streaming_recall (vector [0, 1]) (vector [1, 1]) (Some (vector [True, False])) None = Inr m2 \<and>
     scalars (snd (run (update_op m1) empty_store)) ''precision/true_positives/count'' = 1 \<and>
     scalars (snd (run (update_op m1) empty_store)) ''precision/false_positives/count'' = 1 \<and>
     fst (run (value_tensor m1) (snd (run (update_op m1) empty_store))) = 1 / 2 \<and>
     scalars (snd (run (update_op m2) empty_store)) ''recall/true_positives/count'' = 1 \<and>
     scalars (snd (run (update_op m2) empty_store)) ''recall/false_negatives/count'' = 0"
proof -
  obtain m1 where m1:
    "streaming_precision (vector [1, 1, 0, 0]) (vector [1, 0, 1, 0]) None None = Inr m1"
    by (simp add: decl_defs Let_def)
  obtain m2 where m2:
    "streaming_recall (vector [0, 1]) (vector [1, 1]) (Some (vector [True, False])) None = Inr m2"
    by (simp add: decl_defs Let_def)
  from precision_recall_confusion_counters
         [of "vector [1, 1, 0, 0]" "vector [1, 0, 1, 0]" None None m1 empty_store]
       precision_recall_confusion_counters
         [of "vector [1, 1, 0, 0]" "vector [1, 0, 1, 0]" None None m1
             "snd (run (update_op m1) empty_store)"]
       precision_recall_confusion_counters
         [of "vector [0, 1]" "vector [1, 1]" "Some (vector [True, False])" None m2 empty_store]
       m1 m2
  show ?thesis
    by (simp add: counter_name_def variable_op_scope_def vector_def empty_store_def
        spec_indicator_count_def to_float_def)
qed

subsection \<open>The area under the curve\<close>

lemma trapezoid_sum:
  fixes fpr rcl :: "real list"
  assumes "length fpr = t" "length rcl = t"
  shows "sum_list (map2 (*) (map2 (-) (take (t - 1) fpr) (drop 1 fpr))
                     (map (\<lambda>x. x / 2) (map2 (+) (take (t - 1) rcl) (drop 1 rcl))))
         = (\<Sum>i<t - 1. (fpr ! i - fpr ! (i + 1)) * ((rcl ! i + rcl ! (i + 1)) / 2))"
proof -
  let ?xs = "map2 (*) (map2 (-) (take (t - 1) fpr) (drop 1 fpr))
                     (map (\<lambda>x. x / 2) (map2 (+) (take (t - 1) rcl) (drop 1 rcl)))"
  have len: "length ?xs = t - 1" using assms by simp
  have nth: "?xs ! i = (fpr ! i - fpr ! (i + 1)) * ((rcl ! i + rcl ! (i + 1)) / 2)"
    if "i < t - 1" for i
    using that assms by simp
  have "sum_list ?xs = (\<Sum>i = 0..<length ?xs. ?xs ! i)"
    by (rule sum_list_sum_nth)
  also have "\<dots> = (\<Sum>i<t - 1. ?xs ! i)"
    by (simp only: len atLeast0LessThan)
  also have "\<dots> = (\<Sum>i<t - 1. (fpr ! i - fpr ! (i + 1)) * ((rcl ! i + rcl ! (i + 1)) / 2))"
    by (rule sum.cong, rule refl, rule nth, simp)
  finally show ?thesis .
qed

lemma linspace_nth:
  assumes "2 \<le> n" "i < n"
  shows "linspace a b n ! i = a + real i * ((b - a) / real (n - 1))"
  using assms by (simp add: linspace_def)

lemma length_sweep_counts: "length (sweep_counts f i l p t) = t"
  by (simp add: sweep_counts_def length_linspace)

lemma auc_names_differ:
  "variable_op_scope [] name ''auc'' @ ''/true_positives'' \<noteq> variable_op_scope [] name ''auc'' @ ''/false_negatives''"
  "variable_op_scope [] name ''auc'' @ ''/true_positives'' \<noteq> variable_op_scope [] name ''auc'' @ ''/true_negatives''"
  "variable_op_scope [] name ''auc'' @ ''/true_positives'' \<noteq> variable_op_scope [] name ''auc'' @ ''/false_positives''"
  "variable_op_scope [] name ''auc'' @ ''/false_negatives'' \<noteq> variable_op_scope [] name ''auc'' @ ''/true_negatives''"
  "variable_op_scope [] name ''auc'' @ ''/false_negatives'' \<noteq> variable_op_scope [] name ''auc'' @ ''/false_positives''"
  "variable_op_scope [] name ''auc'' @ ''/true_negatives'' \<noteq> variable_op_scope [] name ''auc'' @ ''/false_positives''"
  by simp_all

lemma streaming_auc_update_vectors:
  assumes "streaming_auc p l i t name = Inr m"
  shows "auc_vector (snd (run (update_op m) st)) name ''true_positives'' =
           map2 (+) (auc_vector st name ''true_positives'') (sweep_counts (\<lambda>y b. y = 1 \<and> b) i l p t)"
    and "auc_vector (snd (run (update_op m) st)) name ''false_negatives'' =
           map2 (+) (auc_vector st name ''false_negatives'') (sweep_counts (\<lambda>y b. y = 1 \<and> \<not> b) i l p t)"
    and "auc_vector (snd (run (update_op m) st)) name ''true_negatives'' =
           map2 (+) (auc_vector st name ''true_negatives'') (sweep_counts (\<lambda>y b. y = 0 \<and> \<not> b) i l p t)"
    and "auc_vector (snd (run (update_op m) st)) name ''false_positives'' =
           map2 (+) (auc_vector st name ''false_positives'') (sweep_counts (\<lambda>y b. y = 0 \<and> b) i l p t)"
  by (simp_all add: streaming_auc_update_store[OF assms] auc_vector_def)

lemma streaming_auc_value:
  assumes decl: "streaming_auc p l i t name = Inr m"
    and len: "length (auc_vector st name ''true_positives'') = t"
      "length (auc_vector st name ''false_negatives'') = t"
      "length (auc_vector st name ''true_negatives'') = t"
      "length (auc_vector st name ''false_positives'') = t"
  shows "fst (run (value_tensor m) st) =
         (\<Sum>i<t - 1. (spec_fpr st name i - spec_fpr st name (i + 1)) *
                       ((spec_recall st name i + spec_recall st name (i + 1)) / 2))"
proof -
  let ?FP = "auc_vector st name ''false_positives''"
  let ?TN = "auc_vector st name ''true_negatives''"
  let ?TP = "auc_vector st name ''true_positives''"
  let ?FN = "auc_vector st name ''false_negatives''"
  let ?fpr = "map2 (/) ?FP (map (\<lambda>x. x + epsilon) (map2 (+) ?FP ?TN))"
  let ?rcl = "map2 (/) (map (\<lambda>x. x + epsilon) ?TP) (map (\<lambda>x. x + epsilon) (map2 (+) ?TP ?FN))"
  have l1: "length ?fpr = t" "length ?rcl = t" using len by simp_all
  have v: "fst (run (value_tensor m) st) =
           sum_list (map2 (*) (map2 (-) (take (t - 1) ?fpr) (drop 1 ?fpr))
                   (map (\<lambda>x. x / 2) (map2 (+) (take (t - 1) ?rcl) (drop 1 ?rcl))))"
    by (subst streaming_auc_form(1)[OF decl])
       (simp add: run_def compute_auc_fst Let_def create_local_def auc_vector_def)
  have f: "?fpr ! j = spec_fpr st name j" if "j < t" for j
    using that len by (simp add: spec_fpr_def epsilon_def)
  have r: "?rcl ! j = spec_recall st name j" if "j < t" for j
    using that len by (simp add: spec_recall_def epsilon_def)
  have "(\<Sum>i<t - 1. (?fpr ! i - ?fpr ! (i + 1)) * ((?rcl ! i + ?rcl ! (i + 1)) / 2))
        = (\<Sum>i<t - 1. (spec_fpr st name i - spec_fpr st name (i + 1)) *
                       ((spec_recall st name i + spec_recall st name (i + 1)) / 2))"
  proof (rule sum.cong, rule refl)
    fix x assume "x \<in> {..<t - 1}"
    then have b: "x < t" "x + 1 < t" by auto
    show "(?fpr ! x - ?fpr ! (x + 1)) * ((?rcl ! x + ?rcl ! (x + 1)) / 2)
          = (spec_fpr st name x - spec_fpr st name (x + 1)) *
            ((spec_recall st name x + spec_recall st name (x + 1)) / 2)"
      by (simp only: f[OF b(1)] f[OF b(2)] r[OF b(1)] r[OF b(2)])
  qed
  with v trapezoid_sum[OF l1] show ?thesis by (simp only:)
qed

lemma linspace_3:
  "linspace (0 - kepsilon) (1 + kepsilon) 3 = [- (1 / 10 ^ 7), 1 / 2, 1 + 1 / 10 ^ 7]"
  "linspace (- kepsilon) (1 + kepsilon) 3 = [- (1 / 10 ^ 7), 1 / 2, 1 + 1 / 10 ^ 7]"
  by (simp_all add: linspace_def kepsilon_def numeral_3_eq_3)

lemma replicate_3: "replicate 3 (0::real) = [0, 0, 0]"
  by (simp add: numeral_3_eq_3)

lemma init_auc:
  assumes "streaming_auc p l i t name = Inr m"
  shows "auc_vector (initialize_local_variables (local_variables m) st) name ''true_positives'' = replicate t 0"
    and "auc_vector (initialize_local_variables (local_variables m) st) name ''false_negatives'' = replicate t 0"
    and "auc_vector (initialize_local_variables (local_variables m) st) name ''true_negatives'' = replicate t 0"
    and "auc_vector (initialize_local_variables (local_variables m) st) name ''false_positives'' = replicate t 0"
  using streaming_auc_form(2)[OF assms]
  by (simp_all add: streaming_auc_form(1)[OF assms] initialize_local_variables_def
      initializer_def create_local_def zeros_def auc_vector_def)

lemma sweep_example:
  "sweep_counts (\<lambda>y b. y = 1 \<and> b) None (vector [1, 0]) (vector [1, 0]) 3 = [1, 1, 0]"
  "sweep_counts (\<lambda>y b. y = 1 \<and> \<not> b) None (vector [1, 0]) (vector [1, 0]) 3 = [0, 0, 1]"
  "sweep_counts (\<lambda>y b. y = 0 \<and> \<not> b) None (vector [1, 0]) (vector [1, 0]) 3 = [0, 1, 1]"
  "sweep_counts (\<lambda>y b. y = 0 \<and> b) None (vector [1, 0]) (vector [1, 0]) 3 = [1, 0, 0]"
  by (simp_all add: sweep_counts_def linspace_3 spec_indicator_count_def vector_def to_float_def)

lemma auc_example_declared:
  "\<exists>m. streaming_auc (vector [1, 0]) (vector [1, 0]) None 3 None = Inr m"
  by (simp add: streaming_auc_def aligned_def remove_squeezable_dimensions_def get_shape_def
      ndims_def is_compatible_with_def vector_def Let_def)


text \<open>
  Claim C4. \<open>streaming_auc\<close> builds \<open>num_thresholds\<close> evenly spaced cut points from
  \<open>0 - 1e-7\<close> to \<open>1 + 1e-7\<close>, classifies every prediction at every cut point by
  \<open>score > threshold\<close>, accumulates the four confusion vectors of length
  \<open>num_thresholds\<close>, and reports the trapezoidal sum over the \<open>num_thresholds - 1\<close>
  adjacent pairs, \<open>(fpr[i] - fpr[i+1]) * (recall[i] + recall[i+1]) / 2\<close>, with
  \<open>fpr = FP / (FP + TN + 1e-6)\<close> and \<open>recall = (TP + 1e-6) / (TP + FN + 1e-6)\<close>.
\<close>

theorem auc_threshold_sweep:
  assumes "streaming_auc predictions labels ignore_mask num_thresholds name = Inr m"
  shows
   "length (linspace (0 - kepsilon) (1 + kepsilon) num_thresholds) = num_thresholds \<and>
    (\<forall>i<num_thresholds.
       linspace (0 - kepsilon) (1 + kepsilon) num_thresholds ! i =
         (0 - 1 / 10 ^ 7) + real i * (((1 + 1 / 10 ^ 7) - (0 - 1 / 10 ^ 7)) / real (num_thresholds - 1))) \<and>
    auc_vector (snd (run (update_op m) st)) name ''true_positives'' =
      map2 (+) (auc_vector st name ''true_positives'')
        (sweep_counts (\<lambda>y b. y = 1 \<and> b) ignore_mask labels predictions num_thresholds) \<and>
    auc_vector (snd (run (update_op m) st)) name ''false_negatives'' =
      map2 (+) (auc_vector st name ''false_negatives'')
        (sweep_counts (\<lambda>y b. y = 1 \<and> \<not> b) ignore_mask labels predictions num_thresholds) \<and>
    auc_vector (snd (run (update_op m) st)) name ''true_negatives'' =
      map2 (+) (auc_vector st name ''true_negatives'')
        (sweep_counts (\<lambda>y b. y = 0 \<and> \<not> b) ignore_mask labels predictions num_thresholds) \<and>
    auc_vector (snd (run (update_op m) st)) name ''false_positives'' =
      map2 (+) (auc_vector st name ''false_positives'')
        (sweep_counts (\<lambda>y b. y = 0 \<and> b) ignore_mask labels predictions num_thresholds) \<and>
    length (sweep_counts f ignore_mask labels predictions num_thresholds) = num_thresholds \<and>
    (length (auc_vector st name ''true_positives'') = num_thresholds \<and>
     length (auc_vector st name ''false_negatives'') = num_thresholds \<and>
     length (auc_vector st name ''true_negatives'') = num_thresholds \<and>
     length (auc_vector st name ''false_positives'') = num_thresholds \<longrightarrow>
     fst (run (value_tensor m) st) =
       (\<Sum>i<num_thresholds - 1.
          (spec_fpr st name i - spec_fpr st name (i + 1)) *
          ((spec_recall st name i + spec_recall st name (i + 1)) / 2)))"
proof (intro conjI allI impI)
  show "length (linspace (0 - kepsilon) (1 + kepsilon) num_thresholds) = num_thresholds"
    by (rule length_linspace)
next
  fix i assume "i < num_thresholds"
  with linspace_nth[OF streaming_auc_form(2)[OF assms], of i "0 - kepsilon" "1 + kepsilon"]
  show "linspace (0 - kepsilon) (1 + kepsilon) num_thresholds ! i =
         (0 - 1 / 10 ^ 7) + real i * (((1 + 1 / 10 ^ 7) - (0 - 1 / 10 ^ 7)) / real (num_thresholds - 1))"
    by (simp add: kepsilon_def)
next
  show "length (sweep_counts f ignore_mask labels predictions num_thresholds) = num_thresholds"
    by (rule length_sweep_counts)
next
  assume "length (auc_vector st name ''true_positives'') = num_thresholds \<and>
     length (auc_vector st name ''false_negatives'') = num_thresholds \<and>
     length (auc_vector st name ''true_negatives'') = num_thresholds \<and>
     length (auc_vector st name ''false_positives'') = num_thresholds"
  then show "fst (run (value_tensor m) st) =
       (\<Sum>i<num_thresholds - 1.
          (spec_fpr st name i - spec_fpr st name (i + 1)) *
          ((spec_recall st name i + spec_recall st name (i + 1)) / 2))"
    using streaming_auc_value[OF assms] by blast
qed (rule streaming_auc_update_vectors[OF assms])+


theorem auc_threshold_sweep_witness:
  "\<exists>m st0 st1.
     streaming_auc (vector [1, 0]) (vector [1, 0]) None 3 None = Inr m \<and>
     st0 = initialize_local_variables (local_variables m) empty_store \<and>
     st1 = snd (run (update_op m) st0) \<and>
     linspace (0 - kepsilon) (1 + kepsilon) 3 ! 1 = 1 / 2 \<and>
     auc_vector st1 None ''true_positives'' = [1, 1, 0] \<and>
     auc_vector st1 None ''false_negatives'' = [0, 0, 1] \<and>
     auc_vector st1 None ''true_negatives'' = [0, 1, 1] \<and>
     auc_vector st1 None ''false_positives'' = [1, 0, 0] \<and>
     fst (run (value_tensor m) st1) = 1000000 / 1000001"
proof -
  obtain m where m: "streaming_auc (vector [1, 0]) (vector [1, 0]) None 3 None = Inr m"
    using auc_example_declared by blast
  define st0 where "st0 = initialize_local_variables (local_variables m) empty_store"
  define st1 where "st1 = snd (run (update_op m) st0)"
  note i = init_auc[OF m, of empty_store, folded st0_def]
  note t0 = auc_threshold_sweep[OF m, of st0 "\<lambda>y b. y = 1 \<and> b", folded st1_def]
  have v: "auc_vector st1 None ''true_positives'' = [1, 1, 0]"
    "auc_vector st1 None ''false_negatives'' = [0, 0, 1]"
    "auc_vector st1 None ''true_negatives'' = [0, 1, 1]"
    "auc_vector st1 None ''false_positives'' = [1, 0, 0]"
    using t0 by (simp_all add: i sweep_example replicate_3)
  have th: "linspace (0 - kepsilon) (1 + kepsilon) 3 ! 1 = 1 / 2"
    using t0 by simp
  note t1 = auc_threshold_sweep[OF m, of st1 "\<lambda>y b. y = 1 \<and> b"]
  have "fst (run (value_tensor m) st1) =
       (\<Sum>i<3 - 1.
          (spec_fpr st1 None i - spec_fpr st1 None (i + 1)) *
          ((spec_recall st1 None i + spec_recall st1 None (i + 1)) / 2))"
    using t1 v by simp
  also have "\<dots> = 1000000 / 1000001"
    by (simp add: spec_fpr_def spec_recall_def v numeral_2_eq_2 lessThan_Suc)
  finally have a: "fst (run (value_tensor m) st1) = 1000000 / 1000001" .
  from m st0_def st1_def th v a show ?thesis by blast
qed


subsection \<open>The value the update op returns\<close>

text \<open>
  Claim C1 asks that, for every metric of the module and every batch, the update op
  return the number the value tensor reports afterwards: the finalization formula on the
  accumulators after the increments. The eleven declarations other than \<open>streaming_auc\<close>
  build their finalization inside the \<open>control_dependencies\<close> block and do so
  (\<open>declare_metric_update_then_value\<close>). \<open>streaming_auc\<close> computes its two rates outside
  the block, and its update op returns the area of the accumulators as they were before
  the increments (\<open>streaming_auc_update_result\<close>). On a first batch of predictions
  \<open>[1, 0]\<close> and labels \<open>[1, 0]\<close> with three thresholds the update op returns \<open>0\<close>, and
  the value tensor then reports \<open>1000000 / 1000001\<close>.
\<close>

theorem streaming_auc_update_returns_stale_value:
  "first_batch (streaming_auc (vector [1, 0]) (vector [1, 0]) None 3 None) st
     = Inr (0, 1000000 / 1000001)"
proof -
  obtain m where m: "streaming_auc (vector [1, 0]) (vector [1, 0]) None 3 None = Inr m"
    using auc_example_declared by blast
  define st0 where "st0 = initialize_local_variables (local_variables m) st"
  define st1 where "st1 = snd (run (update_op m) st0)"
  note i = init_auc[OF m, of st, folded st0_def]
  have v0: "auc_vector st0 None ''true_positives'' = [0, 0, 0]"
    "auc_vector st0 None ''false_negatives'' = [0, 0, 0]"
    "auc_vector st0 None ''true_negatives'' = [0, 0, 0]"
    "auc_vector st0 None ''false_positives'' = [0, 0, 0]"
    by (simp_all add: i replicate_3)
  have v1: "auc_vector st1 None ''true_positives'' = [1, 1, 0]"
    "auc_vector st1 None ''false_negatives'' = [0, 0, 1]"
    "auc_vector st1 None ''true_negatives'' = [0, 1, 1]"
    "auc_vector st1 None ''false_positives'' = [1, 0, 0]"
    unfolding st1_def
    by (simp_all add: streaming_auc_update_vectors[OF m] v0 sweep_example)
  have "fst (run (value_tensor m) st0) =
       (\<Sum>i<3 - 1.
          (spec_fpr st0 None i - spec_fpr st0 None (i + 1)) *
          ((spec_recall st0 None i + spec_recall st0 None (i + 1)) / 2))"
    by (rule streaming_auc_value[OF m]) (simp_all add: v0)
  also have "\<dots> = 0"
    by (simp add: spec_fpr_def spec_recall_def v0 numeral_2_eq_2 lessThan_Suc)
  finally have u: "fst (run (update_op m) st0) = 0"
    by (simp only: streaming_auc_update_result[OF m])
  have "fst (run (value_tensor m) st1) =
       (\<Sum>i<3 - 1.
          (spec_fpr st1 None i - spec_fpr st1 None (i + 1)) *
          ((spec_recall st1 None i + spec_recall st1 None (i + 1)) / 2))"
    by (rule streaming_auc_value[OF m]) (simp_all add: v1)
  also have "\<dots> = 1000000 / 1000001"
    by (simp add: spec_fpr_def spec_recall_def v1 numeral_2_eq_2 lessThan_Suc)
  finally have v: "fst (run (value_tensor m) st1) = 1000000 / 1000001" .
  have "first_batch (Inr m) st = Inr (fst (run (update_op m) st0), fst (run (value_tensor m) st1))"
    by (simp add: first_batch_def split_def Let_def st0_def st1_def)
  with m u v show ?thesis by simp
qed

subsection \<open>The rank checks of \<open>streaming_auc\<close>\<close>

text \<open>
  Claim C7 asks that \<open>streaming_auc\<close> fail, before any accumulator is mutated, when its
  predictions or labels are not of rank 1. The declaration builds the two \<open>Assert\<close> ops
  on the ranks and drops them, so they never run. On predictions and labels of shape
  \<open>[1, 4]\<close> the declaration succeeds, the assertion on the rank would fail if it were
  run, and the update op increments the accumulators.
\<close>

theorem streaming_auc_accepts_rank_2:
  "\<exists>m st0. streaming_auc (tensor_of [1, 4] [1, 0, 1, 0]) (tensor_of [1, 4] [0, 1, 1, 0]) None 3 None
          = Inr m \<and>
       rank (tensor_of [1, 4] [1, 0, 1, 0 :: real]) = 2 \<and>
       fst (run (Assert (rank (tensor_of [1, 4] [1, 0, 1, 0 :: real]) = 1)) empty_store)
          = Inl InvalidArgumentError \<and>
       st0 = initialize_local_variables (local_variables m) empty_store \<and>
       auc_vector st0 None ''true_positives'' = [0, 0, 0] \<and>
       auc_vector (snd (run (update_op m) st0)) None ''true_positives'' = [2, 1, 0]"
proof -
  obtain m where m:
    "streaming_auc (tensor_of [1, 4] [1, 0, 1, 0]) (tensor_of [1, 4] [0, 1, 1, 0]) None 3 None = Inr m"
    by (simp add: streaming_auc_def aligned_def remove_squeezable_dimensions_def get_shape_def
      ndims_def is_compatible_with_def tensor_of_def Let_def)
  define st0 where "st0 = initialize_local_variables (local_variables m) empty_store"
  note i = init_auc[OF m, of empty_store, folded st0_def]
  have s: "sweep_counts (\<lambda>y b. y = 1 \<and> b) None (tensor_of ds [0, 1, 1, 0])
             (tensor_of ds [1, 0, 1, 0]) 3 = [2, 1, 0]" for ds
    by (simp add: sweep_counts_def linspace_3 spec_indicator_count_def tensor_of_def to_float_def)
  have u: "auc_vector (snd (run (update_op m) st0)) None ''true_positives'' = [2, 1, 0]"
    by (simp add: streaming_auc_update_vectors(1)[OF m] i s replicate_3)
  have r: "rank (tensor_of [1, 4] [1, 0, 1, 0 :: real]) = 2"
    by (simp add: rank_def tensor_of_def)
  have a: "fst (run (Assert (rank (tensor_of [1, 4] [1, 0, 1, 0 :: real]) = 1)) empty_store)
          = Inl InvalidArgumentError"
    by (simp add: rank_def tensor_of_def Assert_def run_def)
  from m r a st0_def i(1) u show ?thesis by (simp add: replicate_3)
qed

subsection \<open>Counters start at zero and only grow\<close>

lemma sum_to_float_nonneg: "0 \<le> sum_list (map to_float bs)"
  by (induction bs) (auto simp: to_float_def)

lemma spec_indicator_count_nonneg: "0 \<le> spec_indicator_count f i l p"
proof (cases i)
  case None
  then show ?thesis
    by (auto simp: spec_indicator_count_def to_float_def split_def intro!: sum_list_nonneg)
next
  case (Some msk)
  then show ?thesis
    by (auto simp: spec_indicator_count_def to_float_def split_def intro!: sum_list_nonneg)
qed

lemma sweep_counts_nonneg: "x \<in> set (sweep_counts f i l p t) \<Longrightarrow> 0 \<le> x"
  by (auto simp: sweep_counts_def spec_indicator_count_nonneg)

lemma list_all2_le_add:
  fixes xs d :: "real list"
  assumes "length d = length xs" "\<And>x. x \<in> set d \<Longrightarrow> 0 \<le> x"
  shows "list_all2 (\<le>) xs (map2 (+) xs d)" and "length (map2 (+) xs d) = length xs"
  using assms by (auto simp: list_all2_conv_all_nth)

lemma count_condition_update:
  assumes "count_condition scope values ignore_mask = Inr m"
  shows "scalars st (scope @ ''/count'') \<le> scalars (snd (run (update_op m) st)) (scope @ ''/count'')"
    and "scalars (initialize_local_variables (local_variables m) st) (scope @ ''/count'') = 0"
  by (simp_all add: count_condition_form[OF assms] run_def assign_add_def Let_def create_local_def
      sum_to_float_nonneg initialize_local_variables_def initializer_def zeros_def)

lemma count_condition_sequence:
  assumes "\<forall>m\<in>set ms. \<exists>v i. count_condition scope v i = Inr m"
  shows "scalars st (scope @ ''/count'') \<le> scalars (run_updates ms st) (scope @ ''/count'')"
  using assms
proof (induction ms arbitrary: st)
  case Nil
  then show ?case by (simp add: run_updates_def)
next
  case (Cons m ms)
  then obtain v i where m: "count_condition scope v i = Inr m" by auto
  have "scalars st (scope @ ''/count'') \<le> scalars (snd (run (update_op m) st)) (scope @ ''/count'')"
    by (rule count_condition_update(1)[OF m])
  also have "\<dots> \<le> scalars (run_updates ms (snd (run (update_op m) st))) (scope @ ''/count'')"
    using Cons by simp
  finally show ?case by (simp add: run_updates_def)
qed

lemma streaming_auc_step:
  assumes m: "streaming_auc p l i t name = Inr m"
    and v: "v \<in> set auc_names"
    and len: "length (auc_vector st name v) = t"
  shows "length (auc_vector (snd (run (update_op m) st)) name v) = t"
    and "list_all2 (\<le>) (auc_vector st name v) (auc_vector (snd (run (update_op m) st)) name v)"
proof -
  from v obtain f where
    u: "auc_vector (snd (run (update_op m) st)) name v =
          map2 (+) (auc_vector st name v) (sweep_counts f i l p t)"
    using streaming_auc_update_vectors[OF m, of st] by (auto simp: auc_names_def)
  have l: "length (sweep_counts f i l p t) = length (auc_vector st name v)"
    by (simp add: length_sweep_counts len)
  show "length (auc_vector (snd (run (update_op m) st)) name v) = t"
    using list_all2_le_add(2)[OF l sweep_counts_nonneg] len by (simp only: u)
  show "list_all2 (\<le>) (auc_vector st name v) (auc_vector (snd (run (update_op m) st)) name v)"
    using list_all2_le_add(1)[OF l sweep_counts_nonneg] by (simp only: u)
qed

lemma streaming_auc_sequence:
  assumes "\<forall>m\<in>set ms. \<exists>p l i. streaming_auc p l i t name = Inr m"
    and "v \<in> set auc_names"
    and "length (auc_vector st name v) = t"
  shows "length (auc_vector (run_updates ms st) name v) = t \<and>
         list_all2 (\<le>) (auc_vector st name v) (auc_vector (run_updates ms st) name v)"
  using assms
proof (induction ms arbitrary: st)
  case Nil
  then show ?case by (simp add: run_updates_def list_all2_refl)
next
  case (Cons m ms)
  then obtain p l i where m: "streaming_auc p l i t name = Inr m" by auto
  note s = streaming_auc_step[OF m Cons.prems(2) Cons.prems(3)]
  have ih: "length (auc_vector (run_updates ms (snd (run (update_op m) st))) name v) = t \<and>
        list_all2 (\<le>) (auc_vector (snd (run (update_op m) st)) name v)
          (auc_vector (run_updates ms (snd (run (update_op m) st))) name v)"
    using Cons.IH[OF _ Cons.prems(2) s(1)] Cons.prems(1) by simp
  have r: "run_updates (m # ms) st = run_updates ms (snd (run (update_op m) st))"
    by (simp add: run_updates_def)
  have tr: "list_all2 (\<le>) (auc_vector st name v)
          (auc_vector (run_updates ms (snd (run (update_op m) st))) name v)"
    using list_all2_trans[of "(\<le>)" "(\<le>)" "(\<le>)", OF _ s(2) conjunct2[OF ih]]
    by auto
  show ?case using ih tr by (simp only: r) 
qed

lemma init_auc_names:
  assumes "streaming_auc p l i t name = Inr m" "v \<in> set auc_names"
  shows "auc_vector (initialize_local_variables (local_variables m) st) name v = replicate t 0"
  using init_auc[OF assms(1), of st] assms(2) by (auto simp: auc_names_def)

text \<open>
  Claim C9. Every count-like accumulator, the \<open>count\<close> of \<open>_count_condition\<close> and the
  four confusion vectors of \<open>streaming_auc\<close>, is zero once the local variables are
  initialised, and never decreases across any sequence of updates: each update adds a sum
  of indicator terms that are \<open>0\<close> or \<open>1\<close> after masking.
\<close>

theorem count_accumulators_start_at_zero_and_grow:
  "(count_condition scope values ignore_mask = Inr m \<longrightarrow>
      scalars (initialize_local_variables (local_variables m) st) (scope @ ''/count'') = 0 \<and>
      scalars st (scope @ ''/count'') \<le>
        scalars (snd (run (update_op m) st)) (scope @ ''/count'')) \<and>
   ((\<forall>m\<in>set ms. \<exists>v i. count_condition scope v i = Inr m) \<longrightarrow>
      scalars st (scope @ ''/count'') \<le> scalars (run_updates ms st) (scope @ ''/count'')) \<and>
   (streaming_auc predictions labels ignore num_thresholds name = Inr a \<and> v \<in> set auc_names \<longrightarrow>
      auc_vector (initialize_local_variables (local_variables a) st) name v =
        replicate num_thresholds 0) \<and>
   ((\<forall>m\<in>set aucs. \<exists>p l i. streaming_auc p l i num_thresholds name = Inr m) \<and>
    v \<in> set auc_names \<and> length (auc_vector st name v) = num_thresholds \<longrightarrow>
      length (auc_vector (run_updates aucs st) name v) = num_thresholds \<and>
      list_all2 (\<le>) (auc_vector st name v) (auc_vector (run_updates aucs st) name v))"
  using count_condition_update[of scope "values" ignore_mask m st]
    count_condition_sequence[of ms scope st]
    init_auc_names[of predictions labels ignore num_thresholds name a v st]
    streaming_auc_sequence[of aucs num_thresholds name v st]
  by blast


theorem count_accumulators_start_at_zero_and_grow_witness:
  "\<exists>m a st0.
     count_condition ''tp'' (vector [True, False, True]) None = Inr m \<and>
     streaming_auc (vector [1, 0]) (vector [1, 0]) None 3 None = Inr a \<and>
     st0 = initialize_local_variables (local_variables a) empty_store \<and>
     scalars (initialize_local_variables (local_variables m) st0) ''tp/count'' = 0 \<and>
     scalars st0 ''tp/count'' \<le> scalars (run_updates [m, m] st0) ''tp/count'' \<and>
     auc_vector st0 None ''true_positives'' = replicate 3 0 \<and>
     length (auc_vector (run_updates [a, a] st0) None ''true_positives'') = 3 \<and>
     list_all2 (\<le>) (auc_vector st0 None ''true_positives'')
       (auc_vector (run_updates [a, a] st0) None ''true_positives'')"
proof -
  obtain m where m: "count_condition ''tp'' (vector [True, False, True]) None = Inr m"
    by (simp add: count_condition_def Let_def)
  obtain a where a: "streaming_auc (vector [1, 0]) (vector [1, 0]) None 3 None = Inr a"
    using auc_example_declared by blast
  define st0 where "st0 = initialize_local_variables (local_variables a) empty_store"
  have h1: "\<forall>x\<in>set [m, m]. \<exists>v i. count_condition ''tp'' v i = Inr x"
    using m by auto
  have h2: "\<forall>x\<in>set [a, a]. \<exists>p l i. streaming_auc p l i 3 None = Inr x"
    using a by auto
  have h3: "''true_positives'' \<in> set auc_names"
    by (simp add: auc_names_def)
  note t0 = count_accumulators_start_at_zero_and_grow
              [of "''tp''" "vector [True, False, True]" None m empty_store "[m, m]"
                  "vector [1, 0]" "vector [1, 0]" None 3 None a "''true_positives''" "[a, a]"]
  have z: "auc_vector st0 None ''true_positives'' = replicate 3 0"
    unfolding st0_def
    by (rule mp[OF conjunct1[OF conjunct2[OF conjunct2[OF t0]]] conjI[OF a h3]])
  then have len: "length (auc_vector st0 None ''true_positives'') = 3"
    by simp
  note t1 = count_accumulators_start_at_zero_and_grow
              [of "''tp''" "vector [True, False, True]" None m st0 "[m, m]"
                  "vector [1, 0]" "vector [1, 0]" None 3 None a "''true_positives''" "[a, a]"]
  note r1 = mp[OF conjunct1[OF t1] m]
  note r2 = mp[OF conjunct1[OF conjunct2[OF t1]] h1]
  note r4 = mp[OF conjunct2[OF conjunct2[OF conjunct2[OF t1]]] conjI[OF h2 conjI[OF h3 len]]]
  show ?thesis
    apply (rule exI[of _ m], rule exI[of _ a], rule exI[of _ st0])
    using m a st0_def r1 r2 z r4 by simp
qed

end
